theory Spec2Isabelle
  imports Complex_Main
begin

section \<open>Deep clustering source separation: the mask-derivation pipeline\<close>

text \<open>
  A shallow embedding of \<^verbatim>\<open>nussl/separation/deep_clustering.py\<close> (class
  \<^verbatim>\<open>DeepClustering\<close>). numpy arrays are nested lists in row-major (C) order. In the
  pipeline a float is read as the real number it denotes; the two normalisations whose
  results are compared with 1 are modelled a second time with every arithmetic result
  rounded. The one division of the file whose denominator can be exactly zero, and the
  mean of a zero-size array, return numpy's non-finite values explicitly.
  Arrays are assumed rectangular; where the source can fail on a value it really
  receives (a missing attribute, an empty reduction, a reshape or a product or an
  assignment of the wrong shape, an index out of range, an unbound local) the failure
  is a branch of the model. A nested list cannot tell the shapes of zero-size arrays
  apart, so an array with an axis of length zero is read as having no rows.

  Modelled are \<^verbatim>\<open>_compute_spectrograms\<close>, \<^verbatim>\<open>deep_clustering\<close>, \<^verbatim>\<open>_extract_masks\<close> and
  \<^verbatim>\<open>run\<close>. The constructor, the base class, the audio signal, the embedding network,
  k-means, mask application, the PCA helpers and plotting lie outside: what the four
  methods need of them is a field of the instance or a function of \<open>env\<close>.
\<close>

subsection \<open>Errors and sequencing\<close>

datatype error =
    ValueError string
  | UnboundLocalError string
  | TypeError string
  | AttributeError string
  | IndexError string

definition bindE :: "error + 'a \<Rightarrow> ('a \<Rightarrow> error + 'b) \<Rightarrow> error + 'b" where
  "bindE m f = (case m of Inl e \<Rightarrow> Inl e | Inr v \<Rightarrow> f v)"

definition need :: "'a option \<Rightarrow> error \<Rightarrow> error + 'a" where
  "need v e = (case v of None \<Rightarrow> Inl e | Some x \<Rightarrow> Inr x)"

definition index :: "'a list \<Rightarrow> nat \<Rightarrow> error + 'a" where
  "index xs i = (if i < length xs then Inr (xs ! i) else Inl (IndexError ''index out of bounds''))"

text \<open>A list of computations run in order, stopping at the first error.\<close>

fun sequenceE :: "(error + 'a) list \<Rightarrow> error + 'a list" where
  "sequenceE [] = Inr []"
| "sequenceE (m # ms) = bindE m (\<lambda>x. bindE (sequenceE ms) (\<lambda>xs. Inr (x # xs)))"

subsection \<open>numpy arrays as nested lists\<close>

type_synonym matrix = "real list list"
type_synonym tensor = "real list list list"

text \<open>The literal \<^verbatim>\<open>1e-7\<close> added to every guarded denominator.\<close>

definition eps :: real where
  "eps = 1 / 10000000"

text \<open>\<^verbatim>\<open>a.min()\<close> and \<^verbatim>\<open>a.max()\<close> over all elements; numpy raises on a zero-size array.\<close>

definition np_min :: "real list \<Rightarrow> error + real" where
  "np_min xs = (case xs of
       [] \<Rightarrow> Inl (ValueError ''zero-size array to reduction operation minimum which has no identity'')
     | y # ys \<Rightarrow> Inr (fold min ys y))"

definition np_max :: "real list \<Rightarrow> error + real" where
  "np_max xs = (case xs of
       [] \<Rightarrow> Inl (ValueError ''zero-size array to reduction operation maximum which has no identity'')
     | y # ys \<Rightarrow> Inr (fold max ys y))"

text \<open>\<^verbatim>\<open>a.T\<close> of a two-dimensional array.\<close>

definition T :: "'a list list \<Rightarrow> 'a list list" where
  "T xss = (case xss of [] \<Rightarrow> [] | r # _ \<Rightarrow> map (\<lambda>j. map (\<lambda>row. row ! j) xss) [0..<length r])"

text \<open>The matrix product of two two-dimensional arrays of matching shapes.\<close>

definition dot :: "matrix \<Rightarrow> matrix \<Rightarrow> matrix" where
  "dot a b = map (\<lambda>row. map (\<lambda>col. sum_list (map2 (*) row col)) (T b)) a"

text \<open>
  \<^verbatim>\<open>np.dot\<close> with its shape check: the row length of \<open>a\<close> must be the number of rows
  of \<open>b\<close>. A product with no rows is empty.
\<close>

definition np_dot :: "matrix \<Rightarrow> matrix \<Rightarrow> error + matrix" where
  "np_dot a b = (case a of
       [] \<Rightarrow> Inr []
     | r # _ \<Rightarrow> if length r \<noteq> length b
                then Inl (ValueError ''shapes not aligned'')
                else Inr (dot a b))"

text \<open>\<^verbatim>\<open>a.shape\<close> of a two-dimensional and of a three-dimensional array.\<close>

definition shape2 :: "'a list list \<Rightarrow> nat \<times> nat" where
  "shape2 a = (length a, (case a of [] \<Rightarrow> 0 | r # _ \<Rightarrow> length r))"


definition shape :: "'a list list list \<Rightarrow> nat \<times> nat \<times> nat" where
  "shape a = (case a of [] \<Rightarrow> (0, 0, 0)
     | p # _ \<Rightarrow> (length a, length p, (case p of [] \<Rightarrow> 0 | r # _ \<Rightarrow> length r)))"

text \<open>
  \<^verbatim>\<open>a.reshape((c, t, m))\<close> of a flat array: row-major, and a ValueError when the
  sizes differ.
\<close>

definition reshape :: "nat \<times> nat \<times> nat \<Rightarrow> 'a list \<Rightarrow> error + 'a list list list" where
  "reshape shp xs = (case shp of (c, t, m) \<Rightarrow>
     if length xs \<noteq> c * t * m then Inl (ValueError ''cannot reshape array'')
     else Inr (map (\<lambda>i. map (\<lambda>j. map (\<lambda>k. xs ! ((i * t + j) * m + k)) [0..<m]) [0..<t]) [0..<c]))"

text \<open>
  The result of a float division that numpy lets through with a warning: finite, or one
  of the non-finite values a zero denominator gives.
\<close>

datatype npfloat = Fin real | PInf | NInf | NaN

definition np_divide :: "real \<Rightarrow> real \<Rightarrow> npfloat" where
  "np_divide x y = (if y \<noteq> 0 then Fin (x / y) else if x = 0 then NaN else if 0 < x then PInf else NInf)"

subsection \<open>The separator object\<close>

text \<open>
  Modelled from the spec: the mask-type constants \<^verbatim>\<open>BINARY_MASK\<close> and \<^verbatim>\<open>SOFT_MASK\<close> of
  the base class \<^verbatim>\<open>MaskSeparationBase\<close>, which is not among the sources (the
  specification has \<open>mask_type \<in> {binary, soft}\<close>). Any other configured value is
  \<open>OTHER_MASK\<close>.
\<close>

datatype mask_type = BINARY_MASK | SOFT_MASK | OTHER_MASK string

text \<open>
  Modelled from the spec: the external mixture source (class \<^verbatim>\<open>AudioSignal\<close>, not among
  the sources), reduced to what the four methods read of it: the sample rate, the
  channel count and the stored transform.
\<close>

record audio_signal =
  sample_rate :: nat
  num_channels :: nat
  stft_data :: "complex list list list option"

text \<open>
  Modelled from the spec: the external constructors \<^verbatim>\<open>masks.BinaryMask\<close> and
  \<^verbatim>\<open>masks.SoftMask\<close>, opaque containers of a (frequency, time, channel) array.
\<close>

datatype mask_object = BinaryMask "npfloat list list list" | SoftMask "npfloat list list list"

text \<open>
  The instance. A field the constructor sets to \<^verbatim>\<open>None\<close>, or that does not exist
  before a method assigns it, is optional.
\<close>

record separator =
  audio_signal :: audio_signal
  mask_type :: mask_type
  num_sources :: nat
  num_mels :: nat
  max_distance :: real
  cutoff :: real
  mel_filter_bank :: matrix
  inverse_mel_filter_bank :: matrix
  stft :: "complex list list list option"
  mel_spectrogram :: "tensor option"
  silence_mask :: "bool list list list option"
  embeddings :: "matrix option"
  assignments :: "nat list list list option"
  centroids :: "matrix option"
  masks :: "mask_object list"
  model_calls :: nat

subsection \<open>Mask extraction\<close>

text \<open>Line 185: \<^verbatim>\<open>(silence_mask[ch] * assignments[ch]) == cluster_index\<close>, as 0/1 values.\<close>

definition binary_mel_mask :: "separator \<Rightarrow> nat \<Rightarrow> nat \<Rightarrow> error + matrix" where
  "binary_mel_mask self ch cluster_index =
     bindE (need (silence_mask self) (TypeError ''silence_mask is None'')) (\<lambda>sil.
     bindE (index sil ch) (\<lambda>sil_ch.
     bindE (need (assignments self) (AttributeError ''assignments'')) (\<lambda>asg.
     bindE (index asg ch) (\<lambda>asg_ch.
       Inr (map2 (map2 (\<lambda>b a. of_bool ((if b then 1 else 0) * a = cluster_index))) sil_ch asg_ch)))))"

text \<open>Line 187: the Euclidean distance of every embedding row to one centroid.\<close>

definition euclidean :: "real list \<Rightarrow> real list \<Rightarrow> real" where
  "euclidean e c = sqrt (sum_list (map (\<lambda>d. d ^ 2) (map2 (-) e c)))"

text \<open>
  Lines 187-189: the distances to centroid \<^verbatim>\<open>cluster_index - 1\<close>, shifted by their
  minimum and divided by the maximum of the shifted distances plus \<^verbatim>\<open>1e-7\<close>. Python
  loads \<^verbatim>\<open>self.centroids\<close> and indexes it before the subtraction meets an
  \<^verbatim>\<open>embeddings\<close> that is \<^verbatim>\<open>None\<close>.
\<close>

definition normalized_distances :: "separator \<Rightarrow> nat \<Rightarrow> error + real list" where
  "normalized_distances self cluster_index =
     bindE (need (centroids self) (AttributeError ''centroids'')) (\<lambda>cen.
     bindE (index cen (cluster_index - 1)) (\<lambda>c.
     bindE (need (embeddings self) (TypeError ''embeddings is None'')) (\<lambda>emb.
       let distances = map (\<lambda>e. euclidean e c) emb in
     bindE (np_min distances) (\<lambda>mn.
       let distances = map (\<lambda>d. d + mn) distances in
     bindE (np_max distances) (\<lambda>mx.
       Inr (map (\<lambda>d. d / (mx + eps)) distances))))))"

text \<open>Line 190: \<^verbatim>\<open>distances[distances > self.max_distance] = 1\<close>.\<close>

definition clip_distances :: "real \<Rightarrow> real list \<Rightarrow> real list" where
  "clip_distances maxd distances = map (\<lambda>d. if d > maxd then 1 else d) distances"

definition soft_distances :: "separator \<Rightarrow> nat \<Rightarrow> error + real list" where
  "soft_distances self cluster_index =
     bindE (normalized_distances self cluster_index) (\<lambda>distances.
       Inr (clip_distances (max_distance self) distances))"

text \<open>Lines 191-192: reshape, invert, and gate by the channel's silence mask.\<close>

definition soft_mel_mask :: "separator \<Rightarrow> nat \<Rightarrow> nat \<Rightarrow> error + matrix" where
  "soft_mel_mask self ch cluster_index =
     bindE (soft_distances self cluster_index) (\<lambda>distances.
     bindE (need (mel_spectrogram self) (AttributeError ''shape'')) (\<lambda>mel.
     bindE (reshape (shape mel) distances) (\<lambda>distances.
       let distances = map (map (map (\<lambda>d. 1 - d))) distances in
     bindE (need (silence_mask self) (TypeError ''silence_mask is None'')) (\<lambda>sil.
     bindE (index sil ch) (\<lambda>sil_ch.
     bindE (index distances ch) (\<lambda>dist_ch.
       Inr (map2 (map2 (\<lambda>b d. of_bool b * d)) sil_ch dist_ch)))))))"

text \<open>Line 193: \<^verbatim>\<open>np.dot(mask, self.inverse_mel_filter_bank).T\<close>.\<close>

definition project :: "matrix \<Rightarrow> matrix \<Rightarrow> error + matrix" where
  "project pinv msk = bindE (np_dot msk pinv) (\<lambda>m. Inr (T m))"

text \<open>Line 194: \<^verbatim>\<open>mask += np.abs(mask.min())\<close>.\<close>

definition shift_min :: "matrix \<Rightarrow> error + matrix" where
  "shift_min msk = bindE (np_min (concat msk)) (\<lambda>mn. Inr (map (map (\<lambda>x. x + \<bar>mn\<bar>)) msk))"

text \<open>Line 195: \<^verbatim>\<open>mask /= (np.max(mask) + 1e-7)\<close>.\<close>

definition scale_max :: "matrix \<Rightarrow> error + matrix" where
  "scale_max msk = bindE (np_max (concat msk)) (\<lambda>mx. Inr (map (map (\<lambda>x. x / (mx + eps))) msk))"

definition project_and_normalize :: "matrix \<Rightarrow> matrix \<Rightarrow> error + matrix" where
  "project_and_normalize pinv msk =
     bindE (project pinv msk) (\<lambda>msk. bindE (shift_min msk) scale_max)"

text \<open>
  Lines 183-196: the loop over \<^verbatim>\<open>cluster_index\<close>. The local \<^verbatim>\<open>mask\<close> is assigned only
  in the two recognised branches, so it is carried as an optional value: reading it
  unassigned is Python's UnboundLocalError.
\<close>

fun extract_loop ::
  "separator \<Rightarrow> nat \<Rightarrow> nat list \<Rightarrow> matrix option \<Rightarrow> matrix list \<Rightarrow> error + matrix list" where
  "extract_loop self ch [] msk channel_mask_list = Inr channel_mask_list"
| "extract_loop self ch (cluster_index # rest) msk channel_mask_list =
     bindE (if mask_type self = BINARY_MASK then
              bindE (binary_mel_mask self ch cluster_index) (\<lambda>m. Inr (Some m))
            else if mask_type self = SOFT_MASK then
              bindE (soft_mel_mask self ch cluster_index) (\<lambda>m. Inr (Some m))
            else Inr msk) (\<lambda>msk.
     bindE (need msk (UnboundLocalError ''local variable mask referenced before assignment'')) (\<lambda>m.
     bindE (project_and_normalize (inverse_mel_filter_bank self) m) (\<lambda>m.
       extract_loop self ch rest (Some m) (channel_mask_list @ [m]))))"

text \<open>Lines 199-204: the cross-source sharpening of the soft masks.\<close>

definition stack_last :: "'a list list list \<Rightarrow> error + 'a list list list" where
  "stack_last ms = (case ms of
       [] \<Rightarrow> Inl (ValueError ''need at least one array to stack'')
     | m0 # _ \<Rightarrow> Inr (map (\<lambda>f. map (\<lambda>t. map (\<lambda>m. m ! f ! t) ms)
                              [0..<(case m0 of [] \<Rightarrow> 0 | r # _ \<Rightarrow> length r)]) [0..<length m0]))"

definition reshape_pairs :: "'a list \<Rightarrow> error + 'a list list" where
  "reshape_pairs xs =
     (if length xs mod 2 \<noteq> 0 then Inl (ValueError ''cannot reshape array'')
      else Inr (map (\<lambda>i. [xs ! (2 * i), xs ! (2 * i + 1)]) [0..<length xs div 2]))"

definition sharpen :: "nat \<Rightarrow> matrix list \<Rightarrow> error + npfloat list list list" where
  "sharpen n channel_mask_list =
     bindE (stack_last channel_mask_list) (\<lambda>data.
       let original_shape = shape data in
     bindE (reshape_pairs (concat (concat data))) (\<lambda>rows.
       let data = map (map (\<lambda>x. x ^ 3)) rows;
           data = map (\<lambda>row. map (\<lambda>x. np_divide x (sum_list row)) row) data in
     bindE (reshape original_shape (concat data)) (\<lambda>data.
       if n \<le> length channel_mask_list
       then Inr (map (\<lambda>i. map (map (\<lambda>v. v ! i)) data) [0..<n])
       else Inl (IndexError ''index out of bounds''))))"

definition extract_masks :: "separator \<Rightarrow> nat \<Rightarrow> error + npfloat list list list" where
  "extract_masks self ch =
     (if stft_data (audio_signal self) = None
      then Inl (ValueError ''Cannot extract masks with no signal_stft data'')
      else
        bindE (extract_loop self ch [1..<num_sources self + 1] None []) (\<lambda>channel_mask_list.
          if mask_type self = SOFT_MASK then sharpen (num_sources self) channel_mask_list
          else Inr (map (map (map Fin)) channel_mask_list)))"

subsection \<open>Feature extraction\<close>

text \<open>
  The capabilities the class calls but does not implement: the forward transform of the
  audio signal, the trained embedding network (shape (channel, time, mel) to
  (channel, time, mel, embedding)), and \<^verbatim>\<open>KMeans(n_clusters).fit\<close>, which yields the
  zero-based \<^verbatim>\<open>labels_\<close> and the \<^verbatim>\<open>cluster_centers_\<close> or fails.
\<close>

record env =
  stft_of :: "audio_signal \<Rightarrow> complex list list list"
  model :: "tensor \<Rightarrow> real list list list list"
  kmeans :: "nat \<Rightarrow> matrix \<Rightarrow> error + (nat list \<times> matrix)"

definition tmap :: "('a \<Rightarrow> 'b) \<Rightarrow> 'a list list list \<Rightarrow> 'b list list list" where
  "tmap f a = map (map (map f)) a"

definition flat :: "'a list list list \<Rightarrow> 'a list" where
  "flat a = concat (concat a)"

text \<open>
  \<^verbatim>\<open>np.mean(a)\<close> and \<^verbatim>\<open>np.std(a)\<close> over all elements (population standard deviation).
  On a zero-size array numpy returns not-a-number, with a warning.
\<close>

definition mean :: "real list \<Rightarrow> real" where
  "mean xs = sum_list xs / real (length xs)"

definition np_mean :: "tensor \<Rightarrow> npfloat" where
  "np_mean a = (if flat a = [] then NaN else Fin (mean (flat a)))"

definition np_std :: "tensor \<Rightarrow> npfloat" where
  "np_std a = (if flat a = [] then NaN
               else Fin (sqrt (mean (map (\<lambda>x. \<bar>x - mean (flat a)\<bar> ^ 2) (flat a)))))"

text \<open>Line 141, \<^verbatim>\<open>magnitude[:, :, i]\<close>: the channel must exist.\<close>

definition channel_slice :: "tensor \<Rightarrow> nat \<Rightarrow> error + matrix" where
  "channel_slice a i =
     (if i < snd (snd (shape a)) then Inr (map (map (\<lambda>v. v ! i)) a)
      else Inl (IndexError ''index out of bounds''))"

text \<open>
  Lines 138 and 141, \<^verbatim>\<open>self.mel_spectrogram[i, :, :] = x\<close>: the slice of the buffer has
  \<open>t\<close> rows (the frames of the transform) and \<open>n\<close> columns (\<^verbatim>\<open>num_mels\<close>). numpy
  broadcasts an axis of length 1 of \<open>x\<close> and raises when an axis fits neither way.
\<close>

definition assign_channel :: "nat \<Rightarrow> nat \<Rightarrow> matrix \<Rightarrow> error + matrix" where
  "assign_channel t n x =
     (case shape2 x of (r, c) \<Rightarrow>
        if x = [] then (if t = 0 then Inr [] else Inl (ValueError ''could not broadcast input array''))
        else if (r = t \<or> r = 1) \<and> (c = n \<or> c = 1)
        then Inr (map (\<lambda>j. map (\<lambda>k. x ! (if r = 1 then 0 else j) ! (if c = 1 then 0 else k))
                            [0..<n]) [0..<t])
        else Inl (ValueError ''could not broadcast input array''))"

text \<open>
  Lines 138-141: for every channel, \<^verbatim>\<open>np.dot(magnitude[:, :, i].T, mel_filter_bank)\<close>
  stored into the buffer of shape \<^verbatim>\<open>(num_channels, stft.shape[1], num_mels)\<close>.
\<close>

definition mel_projection :: "matrix \<Rightarrow> nat \<Rightarrow> nat \<Rightarrow> tensor \<Rightarrow> error + tensor" where
  "mel_projection fb nch nmels magnitude =
     sequenceE (map (\<lambda>i.
        bindE (channel_slice magnitude i) (\<lambda>m.
        bindE (np_dot (T m) fb) (assign_channel (fst (snd (shape magnitude))) nmels)))
        [0..<nch])"

text \<open>
  Lines 136-146. The field \<^verbatim>\<open>mel_spectrogram\<close> is assigned three times, and the
  silence mask is read off it after the first assignment. The mean and the standard
  deviation are not-a-number only for a zero-size array, which the two in-place
  operations leave as it is.
\<close>

definition compute_spectrograms :: "env \<Rightarrow> separator \<Rightarrow> error + separator" where
  "compute_spectrograms ext self =
     (let data = stft_of ext (audio_signal self);
          self = self\<lparr>audio_signal := (audio_signal self)\<lparr>stft_data := Some data\<rparr>,
                      stft := Some data\<rparr>;
          magnitude = tmap cmod data in
      bindE (mel_projection (mel_filter_bank self) (num_channels (audio_signal self))
               (num_mels self) magnitude) (\<lambda>mel.
        let self = self\<lparr>mel_spectrogram := Some (tmap (\<lambda>p. 10 * log 10 (p ^ 2 + eps)) mel)\<rparr>;
            self = self\<lparr>silence_mask :=
                     Some (tmap (\<lambda>x. x > cutoff self) (the (mel_spectrogram self)))\<rparr>;
            self = self\<lparr>mel_spectrogram :=
                     Some (case np_mean (the (mel_spectrogram self)) of
                             Fin m \<Rightarrow> tmap (\<lambda>x. x - m) (the (mel_spectrogram self))
                           | _ \<Rightarrow> the (mel_spectrogram self))\<rparr>;
            self = self\<lparr>mel_spectrogram :=
                     Some (case np_std (the (mel_spectrogram self)) of
                             Fin std \<Rightarrow> tmap (\<lambda>x. x / (std + eps)) (the (mel_spectrogram self))
                           | _ \<Rightarrow> the (mel_spectrogram self))\<rparr>
        in Inr self))"

subsection \<open>Embedding and clustering\<close>

text \<open>
  Lines 157-167. \<open>model_calls\<close> is a ghost counter of the invocations of the embedding
  network; nothing reads it.
\<close>

definition deep_clustering :: "env \<Rightarrow> separator \<Rightarrow> error + separator" where
  "deep_clustering ext self =
     bindE (need (mel_spectrogram self) (TypeError ''mel_spectrogram is None'')) (\<lambda>input_data.
       let self = (if embeddings self = None
                   then self\<lparr>embeddings := Some (flat (model ext input_data)),
                             model_calls := model_calls self + 1\<rparr>
                   else self) in
     bindE (kmeans ext (num_sources self) (the (embeddings self))) (\<lambda>(labels, centers).
       let asg = map (\<lambda>l. l + 1) labels in
     bindE (reshape (shape input_data) asg) (\<lambda>asg.
       Inr (self\<lparr>assignments := Some asg, centroids := Some centers\<rparr>))))"

subsection \<open>The pipeline\<close>

text \<open>\<^verbatim>\<open>np.round\<close>: to the nearest integer, halves to the even one.\<close>

definition round_half_even :: "real \<Rightarrow> real" where
  "round_half_even x =
     (if frac x = 1 / 2 then (if even \<lfloor>x\<rfloor> then of_int \<lfloor>x\<rfloor> else of_int (\<lfloor>x\<rfloor> + 1))
      else of_int (round x))"

definition np_round :: "npfloat \<Rightarrow> npfloat" where
  "np_round v = (case v of Fin x \<Rightarrow> Fin (round_half_even x) | _ \<Rightarrow> v)"

text \<open>Lines 244-245: \<^verbatim>\<open>uncollated_masks += self._extract_masks(i)\<close> for every channel.\<close>

fun uncollate :: "separator \<Rightarrow> nat list \<Rightarrow> npfloat list list list \<Rightarrow> error + npfloat list list list" where
  "uncollate self [] uncollated_masks = Inr uncollated_masks"
| "uncollate self (i # rest) uncollated_masks =
     bindE (extract_masks self i) (\<lambda>ms. uncollate self rest (uncollated_masks @ ms))"

text \<open>Lines 247-249: one \<^verbatim>\<open>np.dstack\<close> over the channels per source.\<close>

definition collate :: "separator \<Rightarrow> npfloat list list list \<Rightarrow> error + npfloat list list list list" where
  "collate self uncollated_masks =
     sequenceE (map (\<lambda>s.
        bindE (sequenceE (map (\<lambda>ch. index uncollated_masks (s + ch * num_sources self))
                              [0..<num_channels (audio_signal self)]))
              stack_last)
        [0..<num_sources self])"

text \<open>Lines 253-262: the mask object of one collated mask.\<close>

definition make_mask_object :: "separator \<Rightarrow> npfloat list list list \<Rightarrow> error + mask_object" where
  "make_mask_object self msk =
     (if mask_type self = BINARY_MASK then Inr (BinaryMask (tmap np_round msk))
      else if mask_type self = SOFT_MASK then Inr (SoftMask msk)
      else Inl (ValueError ''Unknown mask type''))"

text \<open>Lines 240-263.\<close>

definition run :: "env \<Rightarrow> separator \<Rightarrow> error + (separator \<times> mask_object list)" where
  "run ext self =
     bindE (compute_spectrograms ext self) (\<lambda>self.
     bindE (deep_clustering ext self) (\<lambda>self.
     bindE (uncollate self [0..<num_channels (audio_signal self)] []) (\<lambda>uncollated_masks.
     bindE (collate self uncollated_masks) (\<lambda>collated_masks.
     bindE (sequenceE (map (make_mask_object self) collated_masks)) (\<lambda>ms.
       Inr (self\<lparr>masks := ms\<rparr>, ms))))))"

subsection \<open>Rounded arithmetic\<close>

text \<open>
  The definitions above read a float as the real number it denotes. The two
  normalisations whose results are compared with 1 are modelled a second time with
  every arithmetic result rounded by a function \<open>fl\<close>; the exact definitions are the
  instance where \<open>fl\<close> is the identity. Of \<open>fl\<close> only what every round-to-nearest float
  format gives is assumed: it is monotone, it leaves its own results, 0 and 1 as they
  are, and it does not round \<^verbatim>\<open>1e-7\<close> down to zero. Overflow is not modelled.
\<close>

definition rounding :: "(real \<Rightarrow> real) \<Rightarrow> bool" where
  "rounding fl = ((\<forall>x y. x \<le> y \<longrightarrow> fl x \<le> fl y) \<and> (\<forall>x. fl (fl x) = fl x) \<and>
                  fl 0 = 0 \<and> fl 1 = 1 \<and> 0 < fl eps)"

text \<open>
  Single precision, the type of the embeddings (line 162): round to nearest, ties to
  even, on a significand of 24 bits; the exponent range is left unbounded.
\<close>

definition float32_mag :: "real \<Rightarrow> real" where
  "float32_mag x = (let u = 2 powr (of_int \<lfloor>log 2 x\<rfloor> - 23) in u * round_half_even (x / u))"

definition float32 :: "real \<Rightarrow> real" where
  "float32 x = (if x = 0 then 0 else if 0 < x then float32_mag x else - float32_mag (- x))"

text \<open>Line 187 with rounding: subtract, square, accumulate the sum, take the root.\<close>

definition fl_euclidean :: "(real \<Rightarrow> real) \<Rightarrow> real list \<Rightarrow> real list \<Rightarrow> real" where
  "fl_euclidean fl e c =
     fl (sqrt (foldl (\<lambda>acc d. fl (acc + d)) 0 (map (\<lambda>d. fl (d ^ 2)) (map2 (\<lambda>a b. fl (a - b)) e c))))"

text \<open>Lines 187-189 with rounding.\<close>

definition normalized_distances_fl :: "(real \<Rightarrow> real) \<Rightarrow> separator \<Rightarrow> nat \<Rightarrow> error + real list" where
  "normalized_distances_fl fl self cluster_index =
     bindE (need (centroids self) (AttributeError ''centroids'')) (\<lambda>cen.
     bindE (index cen (cluster_index - 1)) (\<lambda>c.
     bindE (need (embeddings self) (TypeError ''embeddings is None'')) (\<lambda>emb.
       let distances = map (\<lambda>e. fl_euclidean fl e c) emb in
     bindE (np_min distances) (\<lambda>mn.
       let distances = map (\<lambda>d. fl (d + mn)) distances in
     bindE (np_max distances) (\<lambda>mx.
       Inr (map (\<lambda>d. fl (d / fl (mx + eps))) distances))))))"

text \<open>Lines 187-190 with rounding; the clipping compares and assigns, it does not compute.\<close>

definition soft_distances_fl :: "(real \<Rightarrow> real) \<Rightarrow> separator \<Rightarrow> nat \<Rightarrow> error + real list" where
  "soft_distances_fl fl self cluster_index =
     bindE (normalized_distances_fl fl self cluster_index) (\<lambda>distances.
       Inr (clip_distances (max_distance self) distances))"

text \<open>Lines 194 and 195 with rounding.\<close>

definition shift_min_fl :: "(real \<Rightarrow> real) \<Rightarrow> matrix \<Rightarrow> error + matrix" where
  "shift_min_fl fl msk =
     bindE (np_min (concat msk)) (\<lambda>mn. Inr (map (map (\<lambda>x. fl (x + \<bar>mn\<bar>))) msk))"

definition scale_max_fl :: "(real \<Rightarrow> real) \<Rightarrow> matrix \<Rightarrow> error + matrix" where
  "scale_max_fl fl msk =
     bindE (np_max (concat msk)) (\<lambda>mx. Inr (map (map (\<lambda>x. fl (x / fl (mx + eps)))) msk))"

definition normalize_fl :: "(real \<Rightarrow> real) \<Rightarrow> matrix \<Rightarrow> error + matrix" where
  "normalize_fl fl msk = bindE (shift_min_fl fl msk) (scale_max_fl fl)"

section \<open>The specification's wording and concrete inputs\<close>


text \<open>
  Feature extraction as the specification words it, bin by bin. The mel-band power of
  channel \<open>i\<close>, frame \<open>t\<close> and mel bin \<open>m\<close> is the projection of the magnitude spectrum
  of that channel and frame onto column \<open>m\<close> of the mel filter bank; the log-power is
  \<open>10 * log10 (power\<^sup>2 + epsilon)\<close>; the silence mask is \<open>log-power > cutoff\<close>; the mel
  spectrogram is the log-power minus the mean of all log-powers, divided by their
  standard deviation plus epsilon. \<open>rect2\<close> and \<open>rect3\<close> say that an array has a given
  shape.
\<close>

definition rect2 :: "nat \<Rightarrow> nat \<Rightarrow> 'a list list \<Rightarrow> bool" where
  "rect2 r c a = (length a = r \<and> list_all (\<lambda>row. length row = c) a)"

definition rect3 :: "nat \<Rightarrow> nat \<Rightarrow> nat \<Rightarrow> 'a list list list \<Rightarrow> bool" where
  "rect3 f t c a = (length a = f \<and> list_all (rect2 t c) a)"

definition tabulate3 :: "nat \<Rightarrow> nat \<Rightarrow> nat \<Rightarrow> (nat \<Rightarrow> nat \<Rightarrow> nat \<Rightarrow> 'a) \<Rightarrow> 'a list list list" where
  "tabulate3 c t m f = map (\<lambda>i. map (\<lambda>j. map (\<lambda>k. f i j k) [0..<m]) [0..<t]) [0..<c]"

definition spec_mel_power :: "complex list list list \<Rightarrow> matrix \<Rightarrow> nat \<Rightarrow> nat \<Rightarrow> nat \<Rightarrow> real" where
  "spec_mel_power data fb i t m =
     sum_list (map (\<lambda>f. cmod (data ! f ! t ! i) * fb ! f ! m) [0..<length fb])"

definition spec_log_power :: "complex list list list \<Rightarrow> matrix \<Rightarrow> nat \<Rightarrow> nat \<Rightarrow> nat \<Rightarrow> real" where
  "spec_log_power data fb i t m = 10 * log 10 ((spec_mel_power data fb i t m) ^ 2 + eps)"

definition spec_std :: "real list \<Rightarrow> real" where
  "spec_std xs = sqrt (mean (map (\<lambda>x. (x - mean xs) ^ 2) xs))"

definition spec_silence_mask ::
  "complex list list list \<Rightarrow> matrix \<Rightarrow> real \<Rightarrow> nat \<Rightarrow> nat \<Rightarrow> nat \<Rightarrow> bool list list list" where
  "spec_silence_mask data fb threshold c t m =
     tabulate3 c t m (\<lambda>i j k. spec_log_power data fb i j k > threshold)"

definition spec_mel_spectrogram ::
  "complex list list list \<Rightarrow> matrix \<Rightarrow> nat \<Rightarrow> nat \<Rightarrow> nat \<Rightarrow> tensor" where
  "spec_mel_spectrogram data fb c t m =
     (let lps = flat (tabulate3 c t m (spec_log_power data fb))
      in tabulate3 c t m (\<lambda>i j k.
           (spec_log_power data fb i j k - mean lps) / (spec_std lps + eps)))"

text \<open>The clustering step invoked \<open>n\<close> times in a row on one instance.\<close>

fun repeat_clustering :: "env \<Rightarrow> nat \<Rightarrow> separator \<Rightarrow> error + separator" where
  "repeat_clustering ext 0 self = Inr self"
| "repeat_clustering ext (Suc n) self = bindE (deep_clustering ext self) (repeat_clustering ext n)"

text \<open>A one-channel, two-frame, one-mel-bin separator after clustering, binary policy.\<close>

definition binary_state :: separator where
  "binary_state = \<lparr>audio_signal = \<lparr>sample_rate = 44100, num_channels = 1, stft_data = None\<rparr>,
     mask_type = BINARY_MASK, num_sources = 2, num_mels = 1, max_distance = 1, cutoff = - 40,
     mel_filter_bank = [[1]], inverse_mel_filter_bank = [[1]], stft = None,
     mel_spectrogram = None, silence_mask = Some [[[True], [False]]], embeddings = None,
     assignments = Some [[[1], [2]]], centroids = None, masks = [], model_calls = 0\<rparr>"

text \<open>The same shapes under the soft policy, with two distinct embeddings.\<close>

definition soft_state :: separator where
  "soft_state = \<lparr>audio_signal = \<lparr>sample_rate = 44100, num_channels = 1, stft_data = None\<rparr>,
     mask_type = SOFT_MASK, num_sources = 2, num_mels = 1, max_distance = 1, cutoff = - 40,
     mel_filter_bank = [[1]], inverse_mel_filter_bank = [[1]], stft = None,
     mel_spectrogram = Some [[[1], [- 1]]], silence_mask = Some [[[True], [False]]],
     embeddings = Some [[0], [1]], assignments = Some [[[1], [2]]],
     centroids = Some [[0], [1]], masks = [], model_calls = 1\<rparr>"

text \<open>
  A silent mixture: one channel, one frequency bin, two frames, all of the transform zero.
  The embedding network separates the two bins and k-means labels them 0 and 1.
\<close>

definition silent_env :: env where
  "silent_env = \<lparr>stft_of = (\<lambda>_. [[[0], [0]]]),
     model = (\<lambda>_. [[[[0]], [[1]]]]),
     kmeans = (\<lambda>_ _. Inr ([0, 1], [[0], [1]]))\<rparr>"

text \<open>The separator as the constructor leaves it, for a given mask type.\<close>

definition initial_state :: "mask_type \<Rightarrow> separator" where
  "initial_state mt = \<lparr>audio_signal = \<lparr>sample_rate = 44100, num_channels = 1, stft_data = None\<rparr>,
     mask_type = mt, num_sources = 2, num_mels = 1, max_distance = 1, cutoff = - 40,
     mel_filter_bank = [[1]], inverse_mel_filter_bank = [[1]], stft = None,
     mel_spectrogram = None, silence_mask = None, embeddings = None,
     assignments = None, centroids = None, masks = [], model_calls = 0\<rparr>"

text \<open>The same separator after feature extraction of the silent mixture.\<close>

definition featured_state :: "mask_type \<Rightarrow> separator" where
  "featured_state mt = (initial_state mt)\<lparr>audio_signal := \<lparr>sample_rate = 44100, num_channels = 1,
                                          stft_data = Some [[[0], [0]]]\<rparr>,
                         stft := Some [[[0], [0]]],
                         mel_spectrogram := Some [[[0], [0]]],
                         silence_mask := Some [[[False], [False]]]\<rparr>"

text \<open>The same separator after feature extraction and clustering of the silent mixture.\<close>

definition clustered_state :: "mask_type \<Rightarrow> separator" where
  "clustered_state mt = (initial_state mt)\<lparr>audio_signal := \<lparr>sample_rate = 44100, num_channels = 1,
                                          stft_data = Some [[[0], [0]]]\<rparr>,
                         stft := Some [[[0], [0]]],
                         mel_spectrogram := Some [[[0], [0]]],
                         silence_mask := Some [[[False], [False]]],
                         embeddings := Some [[0], [1]],
                         assignments := Some [[[1], [2]]],
                         centroids := Some [[0], [1]],
                         model_calls := 1\<rparr>"

text \<open>
  A clustered separator whose two single-precision embeddings lie at distance 2 from
  each other.
\<close>

definition float_state :: separator where
  "float_state = soft_state\<lparr>embeddings := Some [[0], [2]], centroids := Some [[0], [2]]\<rparr>"

section \<open>Properties\<close>

subsection \<open>Basic facts\<close>

lemma bindE_simps [simp]: "bindE (Inl e) f = Inl e" "bindE (Inr v) f = f v"
  by (simp_all add: bindE_def)

lemma need_simps [simp]: "need None e = Inl e" "need (Some x) e = Inr x"
  by (simp_all add: need_def)

lemma index_in [simp]: "i < length xs \<Longrightarrow> index xs i = Inr (xs ! i)"
  by (simp add: index_def)

lemma eps_pos: "0 < eps"
  by (simp add: eps_def)

lemma fold_min_Min: "fold min ys (y::real) = Min (set (y # ys))"
  by (rule Min.set_eq_fold [symmetric])

lemma fold_max_Max: "fold max ys (y::real) = Max (set (y # ys))"
  by (rule Max.set_eq_fold [symmetric])

lemma np_min_Min: "xs \<noteq> [] \<Longrightarrow> np_min xs = Inr (Min (set xs))"
  by (cases xs) (simp_all add: np_min_def fold_min_Min)

lemma np_max_Max: "xs \<noteq> [] \<Longrightarrow> np_max xs = Inr (Max (set xs))"
  by (cases xs) (simp_all add: np_max_def fold_max_Max)

lemma sequenceE_map_Inr:
  "(\<forall>i\<in>set xs. f i = Inr (g i)) \<Longrightarrow> sequenceE (map f xs) = Inr (map g xs)"
  by (induction xs) simp_all


subsection \<open>The binary policy\<close>

text \<open>
  C3. Under the binary policy, for every channel and every source index \<open>s\<close> in
  \<open>1..num_sources\<close>, the mel-domain mask of line 185 is 1 exactly at the bins where the
  silence mask is true and the cluster assignment equals \<open>s\<close>, and 0 at every other bin.
\<close>

theorem binary_mask_value:
  assumes "silence_mask self = Some sil" and "assignments self = Some asg"
    and "s \<in> set [1..<num_sources self + 1]"
    and "ch < length sil" and "ch < length asg"
    and "t < length (sil ! ch)" and "t < length (asg ! ch)"
    and "m < length (sil ! ch ! t)" and "m < length (asg ! ch ! t)"
  shows "\<exists>mk. binary_mel_mask self ch s = Inr mk \<and>
           mk ! t ! m = (if sil ! ch ! t ! m \<and> asg ! ch ! t ! m = s then 1 else 0)"
  using assms by (auto simp add: binary_mel_mask_def)

theorem binary_mask_value_witness:
  "binary_mel_mask binary_state 0 1 = Inr [[1], [0]] \<and>
   (\<exists>mk. binary_mel_mask binary_state 0 1 = Inr mk \<and> mk ! 0 ! 0 = 1) \<and>
   (\<exists>mk. binary_mel_mask binary_state 0 2 = Inr mk \<and> mk ! 1 ! 0 = 0)"
  using binary_mask_value [of binary_state "[[[True], [False]]]" "[[[1], [2]]]" 1 0 0 0]
    binary_mask_value [of binary_state "[[[True], [False]]]" "[[[1], [2]]]" 2 0 1 0]
  by (simp add: binary_state_def binary_mel_mask_def)

subsection \<open>The soft policy: the mel-domain mask\<close>




subsection \<open>Rounding\<close>

text \<open>Rounding to the nearest integer, halves to even, is monotone.\<close>

lemma rhe_int [simp]: "round_half_even (of_int k) = of_int k"
  by (simp add: round_half_even_def)

lemma rhe_is_int: "\<exists>k::int. round_half_even x = of_int k"
  unfolding round_half_even_def by (metis (full_types))

lemma rhe_lower: "x - 1 / 2 \<le> round_half_even x"
proof (cases "frac x = 1 / 2")
  case True
  then have "x = of_int \<lfloor>x\<rfloor> + 1 / 2" by (simp add: frac_def)
  then show ?thesis using True by (auto simp add: round_half_even_def)
next
  case False
  then show ?thesis using of_int_round_ge [of x] by (simp add: round_half_even_def)
qed

lemma rhe_upper: "round_half_even x \<le> x + 1 / 2"
proof (cases "frac x = 1 / 2")
  case True
  then have "x = of_int \<lfloor>x\<rfloor> + 1 / 2" by (simp add: frac_def)
  then show ?thesis using True by (auto simp add: round_half_even_def)
next
  case False
  then show ?thesis using of_int_round_le [of x] by (simp add: round_half_even_def)
qed

lemma rhe_mono:
  assumes "x \<le> y"
  shows "round_half_even x \<le> round_half_even y"
proof (rule ccontr)
  assume "\<not> round_half_even x \<le> round_half_even y"
  then have lt: "round_half_even y < round_half_even x" by simp
  obtain a b :: int where a: "round_half_even x = of_int a" and b: "round_half_even y = of_int b"
    using rhe_is_int by blast
  from lt a b have "b < a" by simp
  then have "real_of_int b + 1 \<le> of_int a" by linarith
  moreover have "of_int a \<le> x + 1 / 2" using rhe_upper [of x] a by simp
  moreover have "y - 1 / 2 \<le> of_int b" using rhe_lower [of y] b by simp
  ultimately have "y \<le> x" by linarith
  with assms have "x = y" by simp
  with lt show False by simp
qed

text \<open>Single precision rounds monotonically and leaves its own results as they are.\<close>

lemma binade:
  assumes "0 < x"
  shows "2 powr (of_int \<lfloor>log 2 x\<rfloor>) \<le> x \<and> x < 2 powr (of_int \<lfloor>log 2 x\<rfloor> + 1)"
proof -
  have "of_int \<lfloor>log 2 x\<rfloor> \<le> log 2 x" by simp
  then have "2 powr (of_int \<lfloor>log 2 x\<rfloor>) \<le> 2 powr (log 2 x)" by (simp only: powr_le_cancel_iff) 
  moreover have "log 2 x < of_int \<lfloor>log 2 x\<rfloor> + 1" by linarith
  then have "2 powr (log 2 x) < 2 powr (of_int \<lfloor>log 2 x\<rfloor> + 1)" by (simp only: powr_less_cancel_iff) 
  moreover have "2 powr (log 2 x) = x" using assms by simp
  ultimately show ?thesis by simp
qed

lemma floor_log_binade:
  assumes "2 powr (of_int e) \<le> (x::real)" and "x < 2 powr (of_int e + 1)"
  shows "\<lfloor>log 2 x\<rfloor> = e"
proof -
  have pos: "0 < x" using assms(1) powr_gt_zero [of 2 "of_int e"] by linarith
  have "log 2 (2 powr (of_int e)) \<le> log 2 x" using assms(1) pos by (simp del: log_powr_cancel)
  then have a: "of_int e \<le> log 2 x" by simp
  have "log 2 x < log 2 (2 powr (of_int e + 1))" using assms(2) pos by (simp del: log_powr_cancel)
  then have b: "log 2 x < of_int e + 1" by simp
  show ?thesis using a b by linarith
qed

lemma float32_mag_at:
  assumes "2 powr (of_int e) \<le> (x::real)" and "x < 2 powr (of_int e + 1)"
  shows "float32_mag x = 2 powr (of_int e - 23) * round_half_even (x / 2 powr (of_int e - 23))"
  using floor_log_binade [OF assms] by (simp add: float32_mag_def Let_def)

lemma scaled_significand:
  assumes "2 powr (of_int e) \<le> (x::real)" and "x < 2 powr (of_int e + 1)"
  shows "2 ^ 23 \<le> x / 2 powr (of_int e - 23) \<and> x / 2 powr (of_int e - 23) < 2 ^ 24"
proof -
  have u: "0 < (2::real) powr (of_int e - 23)" by simp
  have a: "(2::real) powr (of_int e) = 2 ^ 23 * 2 powr (of_int e - 23)"
  proof -
    have "(2::real) powr (of_int e) = 2 powr (23 + (of_int e - 23))" by simp
    also have "\<dots> = 2 powr 23 * 2 powr (of_int e - 23)" by (simp only: powr_add)
    finally show ?thesis by simp
  qed
  have b: "(2::real) powr (of_int e + 1) = 2 ^ 24 * 2 powr (of_int e - 23)"
  proof -
    have "(2::real) powr (of_int e + 1) = 2 powr (24 + (of_int e - 23))" by (simp add: add.commute)
    also have "\<dots> = 2 powr 24 * 2 powr (of_int e - 23)" by (simp only: powr_add)
    finally show ?thesis by simp
  qed
  show ?thesis using assms u unfolding a b by (simp add: pos_le_divide_eq pos_divide_less_eq)
qed

lemma significand_range:
  assumes "2 powr (of_int e) \<le> (x::real)" and "x < 2 powr (of_int e + 1)"
  shows "2 ^ 23 \<le> round_half_even (x / 2 powr (of_int e - 23)) \<and>
         round_half_even (x / 2 powr (of_int e - 23)) \<le> 2 ^ 24"
proof -
  from scaled_significand [OF assms]
  have lo: "of_int (2 ^ 23) \<le> x / 2 powr (of_int e - 23)"
    and hi: "x / 2 powr (of_int e - 23) \<le> of_int (2 ^ 24)" by simp_all
  from rhe_mono [OF lo] rhe_mono [OF hi] show ?thesis by (simp only: rhe_int) simp
qed

lemma float32_mag_range:
  assumes "2 powr (of_int e) \<le> (x::real)" and "x < 2 powr (of_int e + 1)"
  shows "2 powr (of_int e) \<le> float32_mag x \<and> float32_mag x \<le> 2 powr (of_int e + 1)"
proof -
  have u: "0 < (2::real) powr (of_int e - 23)" by simp
  have a: "(2::real) powr (of_int e) = 2 powr (of_int e - 23) * 2 ^ 23"
  proof -
    have "(2::real) powr (of_int e) = 2 powr ((of_int e - 23) + 23)" by simp
    also have "\<dots> = 2 powr (of_int e - 23) * 2 powr 23" by (simp only: powr_add)
    finally show ?thesis by simp
  qed
  have b: "(2::real) powr (of_int e + 1) = 2 powr (of_int e - 23) * 2 ^ 24"
  proof -
    have "(2::real) powr (of_int e + 1) = 2 powr ((of_int e - 23) + 24)" by (simp add: add.commute)
    also have "\<dots> = 2 powr (of_int e - 23) * 2 powr 24" by (simp only: powr_add)
    finally show ?thesis by simp
  qed
  from significand_range [OF assms] u show ?thesis
    unfolding float32_mag_at [OF assms] a b by (simp only: mult_le_cancel_left_pos) 
qed

lemma float32_mag_pos: "0 < x \<Longrightarrow> 0 < float32_mag x"
  using binade [of x] float32_mag_range [of "\<lfloor>log 2 x\<rfloor>" x] powr_gt_zero [of 2 "of_int \<lfloor>log 2 x\<rfloor>"]
  by linarith

lemma float32_mag_mono:
  assumes "0 < x" and "x \<le> y"
  shows "float32_mag x \<le> float32_mag y"
proof -
  define ex where "ex = \<lfloor>log 2 x\<rfloor>"
  define ey where "ey = \<lfloor>log 2 y\<rfloor>"
  have y: "0 < y" using assms by linarith
  have bx: "2 powr (of_int ex) \<le> x" "x < 2 powr (of_int ex + 1)"
    using binade [OF assms(1)] by (simp_all add: ex_def)
  have by': "2 powr (of_int ey) \<le> y" "y < 2 powr (of_int ey + 1)"
    using binade [OF y] by (simp_all add: ey_def)
  have "log 2 x \<le> log 2 y" using assms by simp
  then have le: "ex \<le> ey" unfolding ex_def ey_def by (rule floor_mono)
  show ?thesis
  proof (cases "ex = ey")
    case True
    have u: "0 < (2::real) powr (of_int ey - 23)" by simp
    have "x / 2 powr (of_int ey - 23) \<le> y / 2 powr (of_int ey - 23)"
      using assms(2) u by (simp add: divide_right_mono)
    from rhe_mono [OF this] u show ?thesis
      unfolding float32_mag_at [OF bx] float32_mag_at [OF by'] True
      by (simp only: mult_le_cancel_left_pos)
  next
    case False
    then have "ex + 1 \<le> ey" using le by linarith
    then have "real_of_int ex + 1 \<le> of_int ey" by linarith
    then have "(2::real) powr (of_int ex + 1) \<le> 2 powr (of_int ey)" by (simp only: powr_le_cancel_iff) 
    then show ?thesis
      using float32_mag_range [OF bx] float32_mag_range [OF by'] by linarith
  qed
qed

lemma float32_mag_idem:
  assumes "0 < x"
  shows "float32_mag (float32_mag x) = float32_mag x"
proof -
  define e where "e = \<lfloor>log 2 x\<rfloor>"
  define u :: real where "u = 2 powr (of_int e - 23)"
  have bx: "2 powr (of_int e) \<le> x" "x < 2 powr (of_int e + 1)"
    using binade [OF assms] by (simp_all add: e_def)
  obtain k :: int where k: "round_half_even (x / u) = of_int k"
    using rhe_is_int by blast
  have y: "float32_mag x = u * of_int k"
    using float32_mag_at [OF bx] k by (simp add: u_def)
  have upos: "0 < u" by (simp add: u_def)
  have kr: "2 ^ 23 \<le> k" "k \<le> 2 ^ 24"
  proof -
    from significand_range [OF bx] k
    have "(2::real) ^ 23 \<le> of_int k" "real_of_int k \<le> 2 ^ 24" by (simp_all add: u_def)
    then have "real_of_int (2 ^ 23) \<le> of_int k" "real_of_int k \<le> of_int (2 ^ 24)" by simp_all
    then show "2 ^ 23 \<le> k" "k \<le> 2 ^ 24" by (simp_all only: of_int_le_iff)
  qed
  have ue: "2 powr (of_int e) = u * 2 ^ 23"
  proof -
    have "(2::real) powr (of_int e) = 2 powr ((of_int e - 23) + 23)" by simp
    also have "\<dots> = 2 powr (of_int e - 23) * 2 powr 23" by (simp only: powr_add)
    finally show ?thesis by (simp add: u_def)
  qed
  have ue1: "2 powr (of_int e + 1) = u * 2 ^ 24"
  proof -
    have "(2::real) powr (of_int e + 1) = 2 powr ((of_int e - 23) + 24)" by (simp add: add.commute)
    also have "\<dots> = 2 powr (of_int e - 23) * 2 powr 24" by (simp only: powr_add)
    finally show ?thesis by (simp add: u_def)
  qed
  show ?thesis
  proof (cases "k = 2 ^ 24")
    case False
    then have "k < 2 ^ 24" using kr(2) by linarith
    then have "real_of_int k < 2 ^ 24" by (metis of_int_less_iff of_int_numeral of_int_power)
    then have hi: "u * of_int k < 2 powr (of_int e + 1)"
      unfolding ue1 using upos by (simp only: mult_less_cancel_left_pos)
    have "(2::real) ^ 23 \<le> of_int k" using kr(1) by (metis of_int_le_iff of_int_numeral of_int_power)
    then have lo: "2 powr (of_int e) \<le> u * of_int k"
      unfolding ue using upos by (simp only: mult_le_cancel_left_pos)
    have "float32_mag (u * of_int k) = u * round_half_even (u * of_int k / u)"
      using float32_mag_at [OF lo hi] by (simp add: u_def)
    also have "u * of_int k / u = of_int k" using upos by simp
    finally show ?thesis by (simp add: y)
  next
    case True
    define e' where "e' = e + 1"
    have e': "real_of_int e' = of_int e + 1" by (simp add: e'_def)
    from True have yk: "u * of_int k = 2 powr (of_int e')" by (simp add: ue1 e')
    have lo: "2 powr (of_int e') \<le> u * of_int k" by (simp only: yk)
    have hi: "u * of_int k < 2 powr (of_int e' + 1)" unfolding yk by simp
    define u' :: real where "u' = 2 powr (of_int e' - 23)"
    have u'pos: "0 < u'" by (simp add: u'_def)
    have u': "2 powr (of_int e') = u' * of_int (2 ^ 23)"
    proof -
      have "(2::real) powr (of_int e') = 2 powr ((of_int e' - 23) + 23)" by simp
      also have "\<dots> = 2 powr (of_int e' - 23) * 2 powr 23" by (simp only: powr_add)
      finally show ?thesis by (simp add: u'_def)
    qed
    have q: "u * of_int k / u' = of_int (2 ^ 23)" unfolding yk u' using u'pos by simp
    have "float32_mag (u * of_int k) = u' * round_half_even (u * of_int k / u')"
      using float32_mag_at [OF lo hi] by (simp only: u'_def)
    also have "\<dots> = u' * of_int (2 ^ 23)" by (simp only: q rhe_int)
    also have "\<dots> = u * of_int k" by (simp only: u' [symmetric] yk)
    finally show ?thesis by (simp only: y)
  qed
qed

lemma float32_zero [simp]: "float32 0 = 0"
  by (simp add: float32_def)

lemma float32_pos: "0 < x \<Longrightarrow> 0 < float32 x"
  by (simp add: float32_def float32_mag_pos)

lemma float32_neg: "x < 0 \<Longrightarrow> float32 x < 0"
  using float32_mag_pos [of "- x"] by (simp add: float32_def)

lemma float32_mono:
  assumes "x \<le> y"
  shows "float32 x \<le> float32 y"
proof -
  consider "x < 0" "y < 0" | "x < 0" "0 \<le> y" | "x = 0" | "0 < x" using assms by linarith
  then show ?thesis
  proof cases
    case 1
    then have "float32_mag (- y) \<le> float32_mag (- x)" using assms by (intro float32_mag_mono) simp_all
    then show ?thesis using 1 by (simp add: float32_def)
  next
    case 2
    then have "float32 x < 0" by (simp add: float32_neg)
    moreover have "0 \<le> float32 y" using 2(2) float32_pos [of y] by (cases "y = 0") auto
    ultimately show ?thesis by simp
  next
    case 3
    then show ?thesis using assms float32_pos [of y] by (cases "y = 0") auto
  next
    case 4
    then have "float32_mag x \<le> float32_mag y" using assms by (intro float32_mag_mono)
    then show ?thesis using 4 assms by (simp add: float32_def)
  qed
qed

lemma float32_idem: "float32 (float32 x) = float32 x"
proof -
  consider "x < 0" | "x = 0" | "0 < x" by linarith
  then show ?thesis
  proof cases
    case 1
    then have "0 < float32_mag (- x)" by (simp add: float32_mag_pos)
    then show ?thesis using 1 float32_mag_idem [of "- x"] by (simp add: float32_def)
  next
    case 2
    then show ?thesis by simp
  next
    case 3
    then have "0 < float32_mag x" by (simp add: float32_mag_pos)
    then show ?thesis using 3 float32_mag_idem [of x] by (simp add: float32_def)
  qed
qed

lemma float32_pow2: "float32 (2 powr (of_int e)) = 2 powr (of_int e)"
proof -
  have lo: "(2::real) powr (of_int e) \<le> 2 powr (of_int e)" by simp
  have hi: "(2::real) powr (of_int e) < 2 powr (of_int e + 1)" by simp
  have a: "(2::real) powr (of_int e) = 2 powr (of_int e - 23) * of_int (2 ^ 23)"
  proof -
    have "(2::real) powr (of_int e) = 2 powr ((of_int e - 23) + 23)" by simp
    also have "\<dots> = 2 powr (of_int e - 23) * 2 powr 23" by (simp only: powr_add)
    finally show ?thesis by simp
  qed
  have "2 powr (of_int e) / 2 powr (of_int e - 23) = real_of_int (2 ^ 23)"
    by (subst a) simp
  then have "float32_mag (2 powr (of_int e)) = 2 powr (of_int e - 23) * of_int (2 ^ 23)"
    unfolding float32_mag_at [OF lo hi] by (simp only: rhe_int)
  then show ?thesis using a by (simp add: float32_def)
qed

lemma float32_one [simp]: "float32 1 = 1"
  using float32_pow2 [of 0] by simp

lemma float32_two [simp]: "float32 2 = 2"
  using float32_pow2 [of 1] by simp

lemma float32_four [simp]: "float32 4 = 4"
  using float32_pow2 [of 2] by simp

text \<open>Next to 2, single precision has no room for \<^verbatim>\<open>1e-7\<close>.\<close>

lemma rhe_near:
  assumes "\<bar>x - of_int k\<bar> < 1 / 2"
  shows "round_half_even x = of_int k"
proof -
  have "round x = k" using assms unfolding round_def by linarith
  moreover have "\<lfloor>x\<rfloor> = k \<or> \<lfloor>x\<rfloor> = k - 1" using assms by linarith
  then have "frac x \<noteq> 1 / 2" using assms unfolding frac_def by auto
  ultimately show ?thesis by (simp add: round_half_even_def)
qed

lemma float32_absorbs: "float32 (2 + eps) = 2"
proof -
  define x :: real where "x = 2 + eps"
  have p: "(2::real) powr (of_int 1 - 23) = 1 / 2 ^ 22"
  proof -
    have "(2::real) powr (of_int 1 - 23) = 2 powr (- 22)" by simp
    also have "\<dots> = 1 / 2 powr 22" by (simp only: powr_minus_divide)
    finally show ?thesis by simp
  qed
  have lo: "2 powr (of_int 1) \<le> x" by (simp add: x_def eps_def)
  have hi: "x < 2 powr (of_int 1 + 1)" by (simp add: x_def eps_def)
  have "\<bar>x / (1 / 2 ^ 22) - of_int (2 ^ 23)\<bar> < 1 / 2" by (simp add: x_def eps_def)
  then have "round_half_even (x / (1 / 2 ^ 22)) = of_int (2 ^ 23)" by (rule rhe_near)
  then have "float32_mag x = 2" unfolding float32_mag_at [OF lo hi] p by simp
  then show ?thesis by (simp add: float32_def x_def eps_def)
qed

text \<open>Single precision and exact arithmetic are both roundings.\<close>

lemma rounding_float32: "rounding float32"
  unfolding rounding_def
  using float32_mono float32_idem float32_pos [OF eps_pos] by simp

lemma rounding_exact: "rounding (\<lambda>x. x)"
  by (simp add: rounding_def eps_pos)

lemma rounding_mono: "rounding fl \<Longrightarrow> x \<le> y \<Longrightarrow> fl x \<le> fl y"
  by (simp add: rounding_def)

lemma rounding_nonneg: "rounding fl \<Longrightarrow> 0 \<le> x \<Longrightarrow> 0 \<le> fl x"
  using rounding_mono [of fl 0 x] by (simp add: rounding_def)

lemma rounding_le_one: "rounding fl \<Longrightarrow> x \<le> 1 \<Longrightarrow> fl x \<le> 1"
  using rounding_mono [of fl x 1] by (simp add: rounding_def)

text \<open>A non-negative rounded value divided by a rounded value that is not smaller.\<close>

lemma rounded_quotient:
  assumes "rounding fl" and "0 \<le> x" and "x \<le> mx" and "fl mx = mx"
  shows "0 \<le> fl (x / fl (mx + eps)) \<and> fl (x / fl (mx + eps)) \<le> 1"
proof -
  have "mx \<le> mx + eps" using eps_pos by simp
  then have "fl mx \<le> fl (mx + eps)" by (rule rounding_mono [OF assms(1)])
  then have ge: "mx \<le> fl (mx + eps)" using assms(4) by simp
  have "eps \<le> mx + eps" using assms(2,3) by simp
  then have "fl eps \<le> fl (mx + eps)" by (rule rounding_mono [OF assms(1)])
  moreover have "0 < fl eps" using assms(1) by (simp add: rounding_def)
  ultimately have pos: "0 < fl (mx + eps)" by linarith
  have "0 \<le> x / fl (mx + eps)" using assms(2) pos by simp
  moreover have "x / fl (mx + eps) \<le> 1" using assms(3) ge pos by (simp add: divide_simps)
  ultimately show ?thesis using rounding_nonneg [OF assms(1)] rounding_le_one [OF assms(1)] by blast
qed

lemma foldl_rounded_nonneg:
  assumes "rounding fl" and "0 \<le> a" and "\<forall>d\<in>set ds. 0 \<le> d"
  shows "0 \<le> foldl (\<lambda>acc d. fl (acc + d)) a ds"
  using assms(2,3)
proof (induction ds arbitrary: a)
  case Nil
  then show ?case by simp
next
  case (Cons d ds)
  have "0 \<le> fl (a + d)" using Cons.prems by (intro rounding_nonneg [OF assms(1)]) simp
  then show ?case using Cons.IH [of "fl (a + d)"] Cons.prems by simp
qed

lemma fl_euclidean_nonneg:
  assumes "rounding fl"
  shows "0 \<le> fl_euclidean fl e c"
proof -
  have "\<forall>d\<in>set (map (\<lambda>d. fl (d ^ 2)) (map2 (\<lambda>a b. fl (a - b)) e c)). 0 \<le> d"
    using rounding_nonneg [OF assms] by auto
  then have "0 \<le> foldl (\<lambda>acc d. fl (acc + d)) 0 (map (\<lambda>d. fl (d ^ 2)) (map2 (\<lambda>a b. fl (a - b)) e c))"
    by (intro foldl_rounded_nonneg [OF assms]) simp_all
  then show ?thesis unfolding fl_euclidean_def
    by (intro rounding_nonneg [OF assms]) simp
qed

lemma foldl_plus: "foldl (\<lambda>acc d. acc + d) a ds = a + sum_list (ds::real list)"
  by (induction ds arbitrary: a) simp_all

lemma fl_euclidean_exact: "fl_euclidean (\<lambda>x. x) e c = euclidean e c"
  by (simp add: fl_euclidean_def euclidean_def foldl_plus)

lemma normalized_distances_exact:
  "normalized_distances_fl (\<lambda>x. x) self s = normalized_distances self s"
  by (simp add: normalized_distances_fl_def normalized_distances_def fl_euclidean_exact)

lemma soft_distances_exact: "soft_distances_fl (\<lambda>x. x) self s = soft_distances self s"
  by (simp add: soft_distances_fl_def soft_distances_def normalized_distances_exact)

subsection \<open>The soft policy: clipping\<close>

text \<open>
  C10 as stated fails: its reason, that every normalised distance is strictly below 1,
  is false in single precision. With two embeddings at distance 2 the largest shifted
  distance is 2, \<^verbatim>\<open>2 + 1e-7\<close> rounds to 2, and the largest normalised distance is
  exactly 1.
\<close>

theorem normalized_distance_one_counterexample:
  "normalized_distances_fl float32 float_state 1 = Inr [0, 1] \<and> \<not> (1 :: real) < 1"
  by (simp add: normalized_distances_fl_def float_state_def soft_state_def fl_euclidean_def
      np_min_def np_max_def float32_absorbs)

text \<open>
  C10, amended. Under the soft policy, for every non-empty embedding set, every
  \<open>max_distance \<ge> 1\<close> (the default is 1) and every rounding of the arithmetic, every
  normalised distance lies in \<open>[0, 1]\<close>, so the clipping of line 190 changes nothing.
\<close>

theorem clipping_is_identity:
  assumes "rounding fl" and "1 \<le> max_distance self"
    and "embeddings self = Some emb" and "emb \<noteq> []"
    and "centroids self = Some cen" and "s - 1 < length cen"
  shows "\<exists>ds. normalized_distances_fl fl self s = Inr ds \<and> (\<forall>d\<in>set ds. 0 \<le> d \<and> d \<le> 1) \<and>
           clip_distances (max_distance self) ds = ds \<and> soft_distances_fl fl self s = Inr ds"
proof -
  define d0 where "d0 = map (\<lambda>e. fl_euclidean fl e (cen ! (s - 1))) emb"
  define mn where "mn = Min (set d0)"
  define d1 where "d1 = map (\<lambda>d. fl (d + mn)) d0"
  define mx where "mx = Max (set d1)"
  define ds where "ds = map (\<lambda>d. fl (d / fl (mx + eps))) d1"
  have ne: "d0 \<noteq> []" using assms(4) by (simp add: d0_def)
  have ne1: "d1 \<noteq> []" using ne by (simp add: d1_def)
  have nn0: "\<forall>x\<in>set d0. 0 \<le> x" by (auto simp add: d0_def fl_euclidean_nonneg [OF assms(1)])
  then have mn0: "0 \<le> mn" using ne by (simp add: mn_def)
  have nn1: "\<forall>x\<in>set d1. 0 \<le> x"
    using nn0 mn0 by (auto simp add: d1_def intro!: rounding_nonneg [OF assms(1)])
  have fix1: "\<forall>x\<in>set d1. fl x = x" using assms(1) by (auto simp add: d1_def rounding_def)
  have "mx \<in> set d1" unfolding mx_def using ne1 by (intro Max_in) simp_all
  then have fixmx: "fl mx = mx" using fix1 by blast
  have le: "\<forall>x\<in>set d1. x \<le> mx" by (simp add: mx_def)
  have bound: "\<forall>d\<in>set ds. 0 \<le> d \<and> d \<le> 1"
    using rounded_quotient [OF assms(1) _ _ fixmx] nn1 le by (auto simp add: ds_def)
  have run: "normalized_distances_fl fl self s = Inr ds"
    using assms(3,5,6) np_min_Min [OF ne] np_max_Max [OF ne1]
    unfolding ds_def mx_def d1_def mn_def d0_def
    by (simp add: normalized_distances_fl_def Let_def)
  have "\<forall>d\<in>set ds. \<not> d > max_distance self" using bound assms(2) by fastforce
  then have clip: "clip_distances (max_distance self) ds = ds"
    by (simp add: clip_distances_def map_idI)
  show ?thesis using run bound clip by (simp add: soft_distances_fl_def)
qed

theorem clipping_is_identity_witness:
  "rounding float32 \<and> max_distance float_state = 1 \<and>
   normalized_distances_fl float32 float_state 1 = Inr [0, 1] \<and>
   clip_distances (max_distance float_state) [0, 1] = [0, 1] \<and>
   soft_distances_fl float32 float_state 1 = Inr [0, 1]"
proof -
  have n: "normalized_distances_fl float32 float_state 1 = Inr [0, 1]"
    by (simp add: normalized_distances_fl_def float_state_def soft_state_def fl_euclidean_def
      np_min_def np_max_def float32_absorbs)
  from clipping_is_identity [OF rounding_float32, of float_state "[[0], [2]]" "[[0], [2]]" 1]
  show ?thesis using n rounding_float32 by (simp add: float_state_def soft_state_def)
qed

subsection \<open>Projection and normalisation of one mask\<close>

lemma shift_min_exact: "shift_min_fl (\<lambda>x. x) msk = shift_min msk"
  by (simp add: shift_min_fl_def shift_min_def)

lemma scale_max_exact: "scale_max_fl (\<lambda>x. x) msk = scale_max msk"
  by (simp add: scale_max_fl_def scale_max_def)

lemma normalize_exact:
  "bindE (project pinv msk) (normalize_fl (\<lambda>x. x)) = project_and_normalize pinv msk"
  by (simp add: normalize_fl_def project_and_normalize_def shift_min_exact scale_max_exact
      bindE_def split: sum.splits)

lemma T_nth:
  assumes "xss \<noteq> []" and "j < length (hd xss)"
  shows "T xss ! j = map (\<lambda>row. row ! j) xss"
  using assms by (cases xss) (simp_all add: T_def)

lemma length_T: "xss \<noteq> [] \<Longrightarrow> length (T xss) = length (hd xss)"
  by (cases xss) (simp_all add: T_def)

lemma dot_nth:
  assumes "i < length a" and "b \<noteq> []" and "j < length (hd b)"
  shows "dot a b ! i ! j = sum_list (map2 (*) (a ! i) (map (\<lambda>row. row ! j) b))"
  using assms by (simp add: dot_def length_T T_nth)

lemma length_dot: "length (dot a b) = length a"
  by (simp add: dot_def)

lemma length_dot_row: "i < length a \<Longrightarrow> b \<noteq> [] \<Longrightarrow> length (dot a b ! i) = length (hd b)"
  by (simp add: dot_def length_T)

lemma sum_list_times_zeros:
  "\<forall>z\<in>set zs. z = 0 \<Longrightarrow> sum_list (map2 (*) row zs) = (0::real)"
proof (induction zs arbitrary: row)
  case Nil
  then show ?case by simp
next
  case (Cons z zs)
  then show ?case by (cases row) simp_all
qed

text \<open>
  An inverse filter bank with an all-zero column, as the pseudo-inverse of a filter
  bank with a frequency bin of no weight has, projects every mask to a matrix with a
  zero row: the projected minimum is not positive.
\<close>

lemma zero_column_minimum:
  assumes "project pinv msk = Inr p" and "msk \<noteq> []" and "pinv \<noteq> []"
    and "j < length (hd pinv)" and "\<forall>row\<in>set pinv. row ! j = 0"
  shows "\<exists>mn. np_min (concat p) = Inr mn \<and> mn \<le> 0"
proof -
  define m where "m = dot msk pinv"
  have p: "p = T m"
    using assms(1,2) by (cases msk) (auto simp add: project_def np_dot_def m_def split: if_splits)
  have lm: "length m = length msk" by (simp add: m_def length_dot)
  have m_ne: "m \<noteq> []" using lm assms(2) by auto
  have lrow: "length (m ! i) = length (hd pinv)" if "i < length msk" for i
    using that assms(3) by (simp add: m_def length_dot_row)
  have "length (hd m) = length (hd pinv)" using lrow [of 0] assms(2) m_ne by (simp add: hd_conv_nth)
  then have jm: "j < length (hd m)" using assms(4) by simp
  have row: "p ! j = map (\<lambda>r. r ! j) m" unfolding p using m_ne jm by (rule T_nth)
  have lp: "j < length p" unfolding p using length_T [OF m_ne] jm by simp
  have "m ! 0 ! j = 0"
  proof -
    have "m ! 0 ! j = sum_list (map2 (*) (msk ! 0) (map (\<lambda>row. row ! j) pinv))"
      unfolding m_def using assms(2,3,4) by (intro dot_nth) simp_all
    also have "\<dots> = 0" using assms(5) by (intro sum_list_times_zeros) simp
    finally show ?thesis .
  qed
  then have "0 \<in> set (p ! j)" unfolding row using m_ne by (cases m) auto
  then have z: "0 \<in> set (concat p)" using lp by (auto intro!: bexI [of _ "p ! j"])
  have ne: "concat p \<noteq> []"
  proof
    assume "concat p = []"
    then have "set (concat p) = {}" by (simp only: set_empty)
    with z show False by (simp only: empty_iff)
  qed
  have "Min (set (concat p)) \<le> 0" using z by (intro Min_le) simp_all
  then show ?thesis using np_min_Min [OF ne] by simp
qed




subsection \<open>Feature extraction\<close>

lemma map2_times_nth:
  assumes "length xs = length ys"
  shows "map2 (*) (map g xs) (map h ys) = map (\<lambda>f. g (xs ! f) * (h (ys ! f) :: real)) [0..<length ys]"
  using assms by (intro nth_equalityI) simp_all

lemma rect3_nth: "rect3 f t c a \<Longrightarrow> i < f \<Longrightarrow> rect2 t c (a ! i)"
  by (simp add: rect3_def list_all_length)

lemma rect2_hd: "rect2 r c a \<Longrightarrow> 0 < r \<Longrightarrow> a \<noteq> [] \<and> length (hd a) = c"
  by (cases a) (simp_all add: rect2_def)

lemma rect3_shape:
  assumes "rect3 f t c a" and "0 < f" and "0 < t"
  shows "shape a = (f, t, c)"
proof -
  obtain p ps where a: "a = p # ps" using assms(1,2) by (cases a) (simp_all add: rect3_def)
  then have p: "rect2 t c p" using assms(1) by (simp add: rect3_def)
  then obtain r rs where pr: "p = r # rs" using assms(3) by (cases p) (simp_all add: rect2_def)
  then have "length r = c" using p by (simp add: rect2_def)
  then show ?thesis using a pr p assms(1) by (simp add: shape_def rect3_def rect2_def)
qed

lemma rect3_tmap: "rect3 f t c a \<Longrightarrow> rect3 f t c (tmap g a)"
  by (simp add: rect3_def rect2_def tmap_def list_all_length)

lemma tmap_nth:
  assumes "rect3 f t c a" and "i < f" and "j < t" and "k < c"
  shows "tmap g a ! i ! j ! k = g (a ! i ! j ! k)"
proof -
  have "rect2 t c (a ! i)" using assms(1,2) by (rule rect3_nth)
  then have "length (a ! i) = t" and "length (a ! i ! j) = c"
    using assms(3) by (simp_all add: rect2_def list_all_length)
  then show ?thesis using assms by (simp add: tmap_def rect3_def)
qed

text \<open>One channel of lines 140-141 is the specification's projection.\<close>

lemma channel_projection:
  assumes "rect3 F N C data" and "rect2 F M fb"
    and "0 < F" and "0 < N" and "0 < M" and "i < C"
  shows "bindE (channel_slice (tmap cmod data) i)
           (\<lambda>m. bindE (np_dot (T m) fb) (assign_channel (fst (snd (shape (tmap cmod data)))) M))
         = Inr (map (\<lambda>j. map (\<lambda>k. spec_mel_power data fb i j k) [0..<M]) [0..<N])"
proof -
  define mag where "mag = tmap cmod data"
  define sl where "sl = map (map (\<lambda>v. v ! i)) mag"
  define x where "x = dot (T sl) fb"
  have rm: "rect3 F N C mag" unfolding mag_def using assms(1) by (rule rect3_tmap)
  have shp: "shape mag = (F, N, C)" using rm assms(3,4) by (rule rect3_shape)
  have lmag: "length mag = F" using rm by (simp add: rect3_def)
  have cs: "channel_slice mag i = Inr sl" using assms(6) by (simp add: channel_slice_def shp sl_def)
  have lsl: "length sl = F" by (simp add: sl_def lmag)
  have rsl: "length (sl ! f) = N" if "f < F" for f
    using rect3_nth [OF rm that] that by (simp add: sl_def lmag rect2_def)
  have sl_ne: "sl \<noteq> []" using lsl assms(3) by auto
  have hd_sl: "length (hd sl) = N" using rsl [of 0] assms(3) sl_ne by (simp add: hd_conv_nth)
  have lT: "length (T sl) = N" using length_T [OF sl_ne] hd_sl by simp
  have T_ne: "T sl \<noteq> []" using lT assms(4) by auto
  have Trow: "T sl ! j = map (\<lambda>row. row ! j) sl" if "j < N" for j
    using T_nth [OF sl_ne] that hd_sl by simp
  have lfb: "length fb = F" using assms(2) by (simp add: rect2_def)
  have fb_ne: "fb \<noteq> []" and hd_fb: "length (hd fb) = M"
    using rect2_hd [OF assms(2,3)] by simp_all
  have "length (hd (T sl)) = F" using Trow [of 0] assms(4) T_ne lsl by (simp add: hd_conv_nth)
  then have nd: "np_dot (T sl) fb = Inr x"
    using T_ne lfb by (cases "T sl") (simp_all add: np_dot_def x_def)
  have lx: "length x = N" by (simp add: x_def length_dot lT)
  have lxr: "length (x ! j) = M" if "j < N" for j
    using that length_dot_row [of j "T sl" fb] fb_ne hd_fb lT by (simp add: x_def)
  have x_ne: "x \<noteq> []" using lx assms(4) by auto
  have hd_x: "length (hd x) = M" using lxr [of 0] assms(4) x_ne by (simp add: hd_conv_nth)
  have entry: "x ! j ! k = spec_mel_power data fb i j k" if "j < N" and "k < M" for j k
  proof -
    have "x ! j ! k = sum_list (map2 (*) (T sl ! j) (map (\<lambda>row. row ! k) fb))"
      unfolding x_def using that lT fb_ne hd_fb by (intro dot_nth) simp_all
    also have "\<dots> = sum_list (map2 (*) (map (\<lambda>row. row ! j) sl) (map (\<lambda>row. row ! k) fb))"
      using Trow [OF that(1)] by simp
    also have "\<dots> = sum_list (map (\<lambda>f. sl ! f ! j * fb ! f ! k) [0..<length fb])"
      using map2_times_nth [of sl fb "\<lambda>row. row ! j" "\<lambda>row. row ! k"] lsl lfb by simp
    also have "\<dots> = sum_list (map (\<lambda>f. cmod (data ! f ! j ! i) * fb ! f ! k) [0..<length fb])"
    proof -
      have "sl ! f ! j = cmod (data ! f ! j ! i)" if "f < F" for f
      proof -
        have r2: "rect2 N C (mag ! f)" using rm that by (rule rect3_nth)
        have "sl ! f ! j = mag ! f ! j ! i"
          using that \<open>j < N\<close> r2 by (simp add: sl_def lmag rect2_def)
        also have "\<dots> = cmod (data ! f ! j ! i)"
          unfolding mag_def using assms(1) that \<open>j < N\<close> assms(6) by (rule tmap_nth)
        finally show ?thesis .
      qed
      then show ?thesis using lfb by (intro arg_cong [where f = sum_list] map_cong) simp_all
    qed
    finally show ?thesis by (simp add: spec_mel_power_def)
  qed
  have "assign_channel N M x =
          Inr (map (\<lambda>j. map (\<lambda>k. x ! (if N = 1 then 0 else j) ! (if M = 1 then 0 else k))
                            [0..<M]) [0..<N])"
    using x_ne lx hd_x by (cases x) (simp_all add: assign_channel_def shape2_def)
  also have "map (\<lambda>j. map (\<lambda>k. x ! (if N = 1 then 0 else j) ! (if M = 1 then 0 else k))
                            [0..<M]) [0..<N]
             = map (\<lambda>j. map (\<lambda>k. spec_mel_power data fb i j k) [0..<M]) [0..<N]"
    using entry by (intro map_cong refl) auto
  finally have ac: "assign_channel N M x =
      Inr (map (\<lambda>j. map (\<lambda>k. spec_mel_power data fb i j k) [0..<M]) [0..<N])" .
  show ?thesis
    unfolding mag_def [symmetric] by (simp add: cs nd shp ac)
qed

lemma mel_projection_spec:
  assumes "rect3 F N C data" and "rect2 F M fb"
    and "0 < F" and "0 < N" and "0 < M"
  shows "mel_projection fb C M (tmap cmod data) = Inr (tabulate3 C N M (spec_mel_power data fb))"
  unfolding mel_projection_def tabulate3_def
  using channel_projection [OF assms]
  by (intro sequenceE_map_Inr) simp

lemma flat_tmap: "flat (tmap f a) = map f (flat a)"
  by (simp add: flat_def tmap_def map_concat)

lemma tmap_tabulate3: "tmap g (tabulate3 c t m f) = tabulate3 c t m (\<lambda>i j k. g (f i j k))"
  by (simp add: tmap_def tabulate3_def comp_def)

lemma flat_tabulate3_nonempty:
  assumes "0 < c" and "0 < t" and "0 < m"
  shows "flat (tabulate3 c t m f) \<noteq> []"
proof -
  have "[0..<c] = 0 # [1..<c]" "[0..<t] = 0 # [1..<t]" "[0..<m] = 0 # [1..<m]"
    using assms by (simp_all add: upt_conv_Cons)
  then show ?thesis by (simp add: flat_def tabulate3_def)
qed

lemma sum_list_shift: "sum_list (map (\<lambda>x. x - (c::real)) xs) = sum_list xs - real (length xs) * c"
  by (induction xs) (simp_all add: algebra_simps)

lemma mean_centered: "xs \<noteq> [] \<Longrightarrow> mean (map (\<lambda>x. x - mean xs) xs) = 0"
  by (simp add: mean_def sum_list_shift)

lemma np_mean_Fin: "flat a \<noteq> [] \<Longrightarrow> np_mean a = Fin (mean (flat a))"
  by (simp add: np_mean_def)

lemma np_std_centered:
  assumes "flat a \<noteq> []"
  shows "np_std (tmap (\<lambda>x. x - mean (flat a)) a) = Fin (spec_std (flat a))"
proof -
  define xs where "xs = flat a"
  define ys where "ys = map (\<lambda>x. x - mean xs) xs"
  have fl: "flat (tmap (\<lambda>x. x - mean (flat a)) a) = ys" by (simp add: flat_tmap ys_def xs_def)
  have ne: "ys \<noteq> []" using assms by (simp add: ys_def xs_def)
  have z: "mean ys = 0" unfolding ys_def using assms by (intro mean_centered) (simp add: xs_def)
  have "map (\<lambda>x. \<bar>x - mean ys\<bar> ^ 2) ys = map (\<lambda>x. (x - mean xs) ^ 2) xs"
    unfolding z by (simp add: ys_def)
  then have "np_std (tmap (\<lambda>x. x - mean (flat a)) a) = Fin (sqrt (mean (map (\<lambda>x. (x - mean xs) ^ 2) xs)))"
    unfolding np_std_def fl using ne by simp
  then show ?thesis by (simp add: spec_std_def xs_def)
qed

lemma spec_std_nonneg: "0 \<le> spec_std xs"
  unfolding spec_std_def mean_def
  by (rule real_sqrt_ge_zero, rule divide_nonneg_nonneg, rule sum_list_nonneg) auto

text \<open>
  C4. For a transform of shape (frequency, time, channel) and a filter bank of shape
  (frequency, \<^verbatim>\<open>num_mels\<close>), spectrogram computation succeeds; the silence mask is
  \<open>log-power > cutoff\<close> on the log-power \<open>10 * log10 (power\<^sup>2 + epsilon)\<close> of the
  projection of the magnitudes onto the filter bank, taken before normalisation; the
  mel spectrogram is that log-power minus its global mean, divided by its global
  standard deviation plus epsilon.
\<close>

theorem compute_spectrograms_spec:
  assumes "stft_of ext (audio_signal self) = data" and "rect3 F N C data"
    and "rect2 F M (mel_filter_bank self)"
    and "num_channels (audio_signal self) = C" and "num_mels self = M"
    and "0 < F" and "0 < N" and "0 < C" and "0 < M"
  shows "\<exists>self'. compute_spectrograms ext self = Inr self' \<and>
           silence_mask self' =
             Some (spec_silence_mask data (mel_filter_bank self) (cutoff self) C N M) \<and>
           mel_spectrogram self' = Some (spec_mel_spectrogram data (mel_filter_bank self) C N M) \<and>
           stft self' = Some data \<and> stft_data (audio_signal self') = Some data"
proof -
  define fb where "fb = mel_filter_bank self"
  define lp where "lp = tabulate3 C N M (spec_log_power data fb)"
  have proj: "mel_projection fb C M (tmap cmod data) =
                Inr (tabulate3 C N M (spec_mel_power data fb))"
    using assms(2) assms(3) [folded fb_def] assms(6,7,9) by (rule mel_projection_spec)
  have lp_eq: "tmap (\<lambda>p. 10 * log 10 (p ^ 2 + eps)) (tabulate3 C N M (spec_mel_power data fb)) = lp"
    by (simp add: tmap_tabulate3 lp_def spec_log_power_def [abs_def])
  have ne: "flat lp \<noteq> []" unfolding lp_def using assms(8,7,9) by (rule flat_tabulate3_nonempty)
  have m: "np_mean lp = Fin (mean (flat lp))" using ne by (rule np_mean_Fin)
  have sd: "np_std (tmap (\<lambda>x. x - mean (flat lp)) lp) = Fin (spec_std (flat lp))"
    using ne by (rule np_std_centered)
  have sil: "tmap (\<lambda>x. x > cutoff self) lp = spec_silence_mask data fb (cutoff self) C N M"
    by (simp add: lp_def tmap_tabulate3 spec_silence_mask_def)
  have mel: "tmap (\<lambda>x. x / (spec_std (flat lp) + eps)) (tmap (\<lambda>x. x - mean (flat lp)) lp)
             = spec_mel_spectrogram data fb C N M"
    unfolding spec_mel_spectrogram_def Let_def lp_def [symmetric]
    by (simp add: lp_def tmap_tabulate3)
  have "compute_spectrograms ext self =
          Inr (self\<lparr>audio_signal := (audio_signal self)\<lparr>stft_data := Some data\<rparr>,
                     stft := Some data,
                     silence_mask := Some (spec_silence_mask data fb (cutoff self) C N M),
                     mel_spectrogram := Some (spec_mel_spectrogram data fb C N M)\<rparr>)"
    unfolding compute_spectrograms_def
    by (simp add: assms(1,4,5) fb_def [symmetric] proj Let_def lp_eq m sd sil mel)
  then show ?thesis by (simp add: fb_def)
qed

subsection \<open>The embedding cache\<close>

lemma deep_clustering_cached:
  assumes "embeddings self = Some e" and "deep_clustering ext self = Inr self'"
  shows "embeddings self' = Some e \<and> model_calls self' = model_calls self"
  using assms
  by (auto simp add: deep_clustering_def bindE_def need_def Let_def
      split: option.splits sum.splits)

lemma cache_stable:
  assumes "embeddings self = Some e" and "repeat_clustering ext n self = Inr self'"
  shows "embeddings self' = Some e \<and> model_calls self' = model_calls self"
  using assms
proof (induction n arbitrary: self)
  case 0
  then show ?case by simp
next
  case (Suc n)
  from Suc.prems(2) obtain mid where
    mid: "deep_clustering ext self = Inr mid" and rest: "repeat_clustering ext n mid = Inr self'"
    by (cases "deep_clustering ext self") simp_all
  from deep_clustering_cached [OF Suc.prems(1) mid]
  have "embeddings mid = Some e" and "model_calls mid = model_calls self" by simp_all
  with Suc.IH [OF _ rest] show ?case by simp
qed

text \<open>
  C8. One invocation of the clustering step: when embeddings are cached, the embedding
  network is not invoked and the field is unchanged; only when the cache is empty are
  they computed (one invocation) and stored. Either way k-means runs on the embeddings
  now in the field, and any number of further invocations leaves the field and the
  number of invocations of the network as they are.
\<close>

theorem embedding_cache:
  assumes "mel_spectrogram self = Some mel"
    and "kmeans ext (num_sources self)
           (case embeddings self of Some e \<Rightarrow> e | None \<Rightarrow> flat (model ext mel)) = Inr (labels, centers)"
    and "length labels = fst (shape mel) * fst (snd (shape mel)) * snd (snd (shape mel))"
  shows "\<exists>self' asg. deep_clustering ext self = Inr self' \<and>
           (if embeddings self = None
            then embeddings self' = Some (flat (model ext mel)) \<and>
                 model_calls self' = model_calls self + 1
            else embeddings self' = embeddings self \<and> model_calls self' = model_calls self) \<and>
           kmeans ext (num_sources self') (the (embeddings self')) = Inr (labels, centers) \<and>
           reshape (shape mel) (map (\<lambda>l. l + 1) labels) = Inr asg \<and>
           assignments self' = Some asg \<and> centroids self' = Some centers \<and>
           mel_spectrogram self' = Some mel \<and>
           (\<forall>n self''. repeat_clustering ext n self' = Inr self'' \<longrightarrow>
              embeddings self'' = embeddings self' \<and> model_calls self'' = model_calls self')"
proof -
  obtain c t m where shp: "shape mel = (c, t, m)" by (cases "shape mel") auto
  then obtain asg where asg: "reshape (shape mel) (map (\<lambda>l. l + 1) labels) = Inr asg"
    using assms(3) by (simp add: reshape_def)
  have step: "\<exists>self'. deep_clustering ext self = Inr self' \<and>
           (if embeddings self = None
            then embeddings self' = Some (flat (model ext mel)) \<and>
                 model_calls self' = model_calls self + 1
            else embeddings self' = embeddings self \<and> model_calls self' = model_calls self) \<and>
           kmeans ext (num_sources self') (the (embeddings self')) = Inr (labels, centers) \<and>
           assignments self' = Some asg \<and> centroids self' = Some centers \<and>
           mel_spectrogram self' = Some mel"
  proof (cases "embeddings self")
    case None
    then show ?thesis using assms(1,2) asg
      by (simp add: deep_clustering_def Let_def)
  next
    case (Some e)
    then show ?thesis using assms(1,2) asg
      by (simp add: deep_clustering_def Let_def)
  qed
  then obtain self' where s: "deep_clustering ext self = Inr self'"
    and c: "if embeddings self = None
            then embeddings self' = Some (flat (model ext mel)) \<and>
                 model_calls self' = model_calls self + 1
            else embeddings self' = embeddings self \<and> model_calls self' = model_calls self"
    and r: "kmeans ext (num_sources self') (the (embeddings self')) = Inr (labels, centers)"
      "assignments self' = Some asg" "centroids self' = Some centers"
      "mel_spectrogram self' = Some mel"
    by blast
  from c obtain e where e: "embeddings self' = Some e"
    by (cases "embeddings self") (auto split: if_splits)
  have "\<forall>n self''. repeat_clustering ext n self' = Inr self'' \<longrightarrow>
              embeddings self'' = embeddings self' \<and> model_calls self'' = model_calls self'"
    using cache_stable [OF e] e by simp
  with s c r asg show ?thesis by blast
qed

subsection \<open>The silent mixture\<close>

lemma log_eps: "log 10 eps = - 7"
proof -
  have "eps = 10 powr (- 7)" by (simp add: eps_def powr_minus_divide)
  moreover have "log 10 (10 powr (- 7)) = (- 7::real)" by (rule log_powr_cancel) simp_all
  ultimately show ?thesis by (simp only:)
qed

lemma silent_spectrograms:
  "compute_spectrograms silent_env (initial_state mt) = Inr (featured_state mt)"
  by (simp add: compute_spectrograms_def silent_env_def initial_state_def featured_state_def
      Let_def tmap_def mel_projection_def channel_slice_def shape_def np_dot_def
      assign_channel_def shape2_def dot_def T_def np_mean_def np_std_def mean_def flat_def
      log_eps)

lemma silent_clustering:
  "deep_clustering silent_env (featured_state mt) = Inr (clustered_state mt)"
  by (simp add: deep_clustering_def clustered_state_def featured_state_def silent_env_def
      initial_state_def flat_def shape_def reshape_def Let_def)

theorem embedding_cache_witness:
  "(\<exists>self'. deep_clustering silent_env (clustered_state SOFT_MASK) = Inr self' \<and>
      embeddings self' = Some [[0], [1]] \<and> model_calls self' = 1) \<and>
   (\<exists>self'. deep_clustering silent_env (featured_state SOFT_MASK) = Inr self' \<and>
      embeddings self' = Some [[0], [1]] \<and> model_calls self' = 1)"
proof -
  have hit: "\<exists>self'. deep_clustering silent_env (clustered_state SOFT_MASK) = Inr self' \<and>
      embeddings self' = Some [[0], [1]] \<and> model_calls self' = 1"
    using embedding_cache [of "clustered_state SOFT_MASK" "[[[0], [0]]]" silent_env "[0, 1]" "[[0], [1]]"]
    by (auto simp add: clustered_state_def initial_state_def silent_env_def shape_def flat_def)
  have miss: "\<exists>self'. deep_clustering silent_env (featured_state SOFT_MASK) = Inr self' \<and>
      embeddings self' = Some [[0], [1]] \<and> model_calls self' = 1"
    using embedding_cache [of "featured_state SOFT_MASK" "[[[0], [0]]]"
      silent_env "[0, 1]" "[[0], [1]]"]
    by (auto simp add: featured_state_def initial_state_def silent_env_def shape_def flat_def)
  show ?thesis using hit miss by blast
qed

theorem compute_spectrograms_spec_witness:
  "rect3 1 2 1 [[[0 :: complex], [0]]] \<and> rect2 1 1 [[1 :: real]] \<and>
   (\<exists>self'. compute_spectrograms silent_env (initial_state SOFT_MASK) = Inr self' \<and>
      silence_mask self' = Some [[[False], [False]]] \<and>
      mel_spectrogram self' = Some [[[0], [0]]])"
proof -
  have r3: "rect3 1 2 1 [[[0 :: complex], [0]]]" by (simp add: rect3_def rect2_def)
  have r2: "rect2 1 1 [[1 :: real]]" by (simp add: rect2_def)
  have fb: "mel_filter_bank (initial_state SOFT_MASK) = [[1]]"
    and co: "cutoff (initial_state SOFT_MASK) = - 40"
    and nc: "num_channels (audio_signal (initial_state SOFT_MASK)) = 1"
    and nm: "num_mels (initial_state SOFT_MASK) = 1"
    by (simp_all add: initial_state_def)
  have st: "stft_of silent_env (audio_signal (initial_state SOFT_MASK)) = [[[0], [0]]]"
    by (simp add: silent_env_def)
  have lp: "spec_log_power [[[0], [0]]] [[1]] 0 0 0 = - 70"
    "spec_log_power [[[0], [0]]] [[1]] 0 (Suc 0) 0 = - 70"
    by (simp_all add: spec_log_power_def spec_mel_power_def log_eps)
  have sil: "spec_silence_mask [[[0], [0]]] [[1]] (- 40) 1 2 1 = [[[False], [False]]]"
    by (simp add: spec_silence_mask_def tabulate3_def upt_conv_Cons lp)
  have mel: "spec_mel_spectrogram [[[0], [0]]] [[1]] 1 2 1 = [[[0], [0]]]"
    by (simp add: spec_mel_spectrogram_def tabulate3_def upt_conv_Cons lp flat_def mean_def)
  have "\<exists>self'. compute_spectrograms silent_env (initial_state SOFT_MASK) = Inr self' \<and>
      silence_mask self' =
        Some (spec_silence_mask [[[0], [0]]] (mel_filter_bank (initial_state SOFT_MASK))
                (cutoff (initial_state SOFT_MASK)) 1 2 1) \<and>
      mel_spectrogram self' =
        Some (spec_mel_spectrogram [[[0], [0]]] (mel_filter_bank (initial_state SOFT_MASK)) 1 2 1) \<and>
      stft self' = Some [[[0], [0]]] \<and> stft_data (audio_signal self') = Some [[[0], [0]]]"
    by (rule compute_spectrograms_spec [OF st r3 _ nc nm]) (simp_all add: fb rect2_def)
  then obtain self' where
    "compute_spectrograms silent_env (initial_state SOFT_MASK) = Inr self'"
    "silence_mask self' = Some [[[False], [False]]]"
    "mel_spectrogram self' = Some [[[0], [0]]]"
    unfolding fb co sil mel by blast
  then show ?thesis using r3 r2 by blast
qed

subsection \<open>An unrecognised mask type\<close>

lemma extract_masks_unknown:
  assumes "mask_type self \<noteq> BINARY_MASK" and "mask_type self \<noteq> SOFT_MASK"
    and "stft_data (audio_signal self) \<noteq> None" and "0 < num_sources self"
  shows "extract_masks self ch =
           Inl (UnboundLocalError ''local variable mask referenced before assignment'')"
proof -
  have "[1..<num_sources self + 1] = 1 # [Suc 1..<num_sources self + 1]"
    using assms(4) by (intro upt_conv_Cons) simp
  then show ?thesis using assms by (simp add: extract_masks_def)
qed

text \<open>
  C6 fails on the code. With a mask type that is neither binary nor soft, the first
  iteration of the extraction loop reads the local \<^verbatim>\<open>mask\<close> before any branch has
  assigned it, so \<^verbatim>\<open>run\<close> stops there with an UnboundLocalError and never reaches the
  \<^verbatim>\<open>Unknown mask type\<close> error of mask assembly.
\<close>

text \<open>
  C6 fails on the code. With a mask type that is neither binary nor soft, the first
  iteration of the extraction loop reads the local \<^verbatim>\<open>mask\<close> before any branch has
  assigned it, so \<^verbatim>\<open>run\<close> stops there with an UnboundLocalError and never reaches the
  \<^verbatim>\<open>Unknown mask type\<close> error of mask assembly.
\<close>

theorem unknown_mask_type_run:
  "run silent_env (initial_state (OTHER_MASK ''ratio'')) =
     Inl (UnboundLocalError ''local variable mask referenced before assignment'')"
proof -
  have "extract_masks (clustered_state (OTHER_MASK ''ratio'')) 0 =
          Inl (UnboundLocalError ''local variable mask referenced before assignment'')"
    by (rule extract_masks_unknown) (simp_all add: clustered_state_def initial_state_def)
  then show ?thesis
    by (simp add: run_def silent_spectrograms silent_clustering)
       (simp add: clustered_state_def initial_state_def)
qed

subsection \<open>The unguarded division of the sharpening step\<close>

text \<open>
  What the sharpening computes for two masks of one shape: at every bin the cube of each
  value over the sum of the two cubes. For non-negative values that are not both zero
  the two quotients lie in \<open>[0, 1]\<close> and sum to 1; where both are zero they are
  not-a-number.
\<close>

lemma length_concat_uniform:
  "\<forall>xs\<in>set xss. length xs = n \<Longrightarrow> length (concat xss) = length xss * n"
  by (induction xss) simp_all

lemma nth_concat_uniform:
  "\<forall>xs\<in>set xss. length xs = n \<Longrightarrow> i < length xss \<Longrightarrow> j < n \<Longrightarrow>
     concat xss ! (i * n + j) = xss ! i ! j"
proof (induction xss arbitrary: i)
  case Nil
  then show ?case by simp
next
  case (Cons xs xss)
  show ?case
  proof (cases i)
    case 0
    then show ?thesis using Cons.prems by (simp add: nth_append)
  next
    case (Suc k)
    then have "concat (xs # xss) ! (i * n + j) = concat xss ! (k * n + j)"
      using Cons.prems by (simp add: nth_append)
    then show ?thesis using Cons.IH [of k] Cons.prems Suc by simp
  qed
qed

lemma flat_index_bound:
  assumes "f < F" and "t < (N::nat)"
  shows "f * N + t < F * N"
proof -
  have "f * N + t < f * N + N" using assms(2) by simp
  also have "\<dots> = (f + 1) * N" by simp
  also have "\<dots> \<le> F * N" using assms(1) by (intro mult_le_mono1) simp
  finally show ?thesis .
qed

text \<open>The stacked pair of two masks of shape \<open>F \<times> N\<close>, flattened and regrouped in pairs.\<close>

lemma stacked_pairs:
  "reshape_pairs (concat (concat (map (\<lambda>f. map (\<lambda>t. [a ! f ! t, b ! f ! t]) [0..<N]) [0..<F])))
         = Inr (concat (map (\<lambda>f. map (\<lambda>t. [a ! f ! t, (b ! f ! t)::real]) [0..<N]) [0..<F]))"
proof -
  define data where "data = map (\<lambda>f. map (\<lambda>t. [a ! f ! t, b ! f ! t]) [0..<N]) [0..<F]"
  define rows where "rows = concat data"
  have u2: "\<forall>xs\<in>set rows. length xs = 2" by (auto simp add: rows_def data_def)
  have len: "length (concat rows) = length rows * 2" using length_concat_uniform [OF u2] .
  have "map (\<lambda>i. [concat rows ! (2 * i), concat rows ! (2 * i + 1)]) [0..<length rows] = rows"
  proof (rule nth_equalityI)
    show "length (map (\<lambda>i. [concat rows ! (2 * i), concat rows ! (2 * i + 1)]) [0..<length rows]) = length rows"
      by simp
  next
    fix i assume "i < length (map (\<lambda>i. [concat rows ! (2 * i), concat rows ! (2 * i + 1)]) [0..<length rows])"
    then have i: "i < length rows" by simp
    have l2: "length (rows ! i) = 2" using u2 i by simp
    have e0: "concat rows ! (2 * i) = rows ! i ! 0"
      using nth_concat_uniform [OF u2 i, of 0] by (simp add: mult.commute)
    have e1: "concat rows ! (2 * i + 1) = rows ! i ! 1"
      using nth_concat_uniform [OF u2 i, of 1] by (simp add: mult.commute)
    have "rows ! i = [rows ! i ! 0, rows ! i ! 1]"
      using l2 by (cases "rows ! i"; cases "tl (rows ! i)") auto
    then show "map (\<lambda>i. [concat rows ! (2 * i), concat rows ! (2 * i + 1)]) [0..<length rows] ! i = rows ! i"
      using i e0 e1 by simp
  qed
  then show ?thesis
    unfolding data_def [symmetric] rows_def [symmetric] by (simp add: reshape_pairs_def len)
qed

lemma sharpen_two_sources:
  assumes "a \<noteq> []" and "f < length a" and "t < length (hd a)"
  shows "\<exists>r. sharpen 2 [a, b] = Inr r \<and>
           r ! 0 ! f ! t = np_divide (a ! f ! t ^ 3) (a ! f ! t ^ 3 + b ! f ! t ^ 3) \<and>
           r ! 1 ! f ! t = np_divide (b ! f ! t ^ 3) (a ! f ! t ^ 3 + b ! f ! t ^ 3)"
proof -
  define F where "F = length a"
  define N where "N = length (hd a)"
  define data where "data = map (\<lambda>f. map (\<lambda>t. [a ! f ! t, b ! f ! t]) [0..<N]) [0..<F]"
  define sharp where "sharp = (\<lambda>row. map (\<lambda>x. np_divide x (sum_list row)) row) \<circ> map (\<lambda>x::real. x ^ 3)"
  define rows where "rows = map sharp (concat data)"
  have F: "0 < F" "f < F" using assms(1,2) by (simp_all add: F_def)
  have N: "0 < N" "t < N" using assms(3) by (auto simp add: N_def)
  have st: "stack_last [a, b] = Inr data"
    using assms(1) by (cases a) (simp_all add: stack_last_def data_def F_def N_def)
  have shp: "shape data = (F, N, 2)"
  proof -
    have "[0..<F] = 0 # [1..<F]" using F(1) by (simp add: upt_conv_Cons)
    moreover have "[0..<N] = 0 # [1..<N]" using N(1) by (simp add: upt_conv_Cons)
    ultimately show ?thesis using F(1) N(1) by (simp add: shape_def data_def)
  qed
  have pairs: "reshape_pairs (concat (concat data)) = Inr (concat data)"
    unfolding data_def by (rule stacked_pairs)
  have uN: "\<forall>xs\<in>set data. length xs = N" by (auto simp add: data_def)
  have lend: "length data = F" by (simp add: data_def)
  have lenc: "length (concat data) = F * N" using length_concat_uniform [OF uN] lend by simp
  have u2: "\<forall>xs\<in>set rows. length xs = 2" by (auto simp add: rows_def data_def sharp_def)
  have lenr: "length rows = F * N" by (simp add: rows_def lenc)
  have lenf: "length (concat rows) = F * N * 2" using length_concat_uniform [OF u2] lenr by simp
  define out where
    "out = map (\<lambda>i. map (\<lambda>j. map (\<lambda>k. concat rows ! ((i * N + j) * 2 + k)) [0..<2]) [0..<N]) [0..<F]"
  have rs: "reshape (F, N, 2) (concat rows) = Inr out"
    by (simp add: reshape_def lenf out_def)
  have rows_eq: "map (\<lambda>row. map (\<lambda>x. np_divide x (sum_list row)) row)
                   (map (map (\<lambda>x. x ^ 3)) (concat data)) = rows"
    by (simp add: rows_def sharp_def)
  have sh: "sharpen 2 [a, b] = Inr (map (\<lambda>i. map (map (\<lambda>v. v ! i)) out) [0..<2])"
    by (simp only: sharpen_def st bindE_simps Let_def shp pairs rows_eq rs) simp
  have idx: "f * N + t < F * N" using F(2) N(2) by (rule flat_index_bound)
  have cell: "concat data ! (f * N + t) = [a ! f ! t, b ! f ! t]"
    using nth_concat_uniform [OF uN, of f t] F(2) N(2) lend by (simp add: data_def)
  have row: "rows ! (f * N + t) =
      [np_divide (a ! f ! t ^ 3) (a ! f ! t ^ 3 + b ! f ! t ^ 3),
       np_divide (b ! f ! t ^ 3) (a ! f ! t ^ 3 + b ! f ! t ^ 3)]"
    using idx lenc by (simp add: rows_def cell sharp_def)
  have o: "out ! f ! t ! k = rows ! (f * N + t) ! k" if "k < 2" for k
  proof -
    have "out ! f ! t ! k = concat rows ! ((f * N + t) * 2 + k)"
      using F(2) N(2) that by (simp add: out_def)
    also have "\<dots> = rows ! (f * N + t) ! k"
      using nth_concat_uniform [OF u2 _ that, of "f * N + t"] idx lenr by simp
    finally show ?thesis .
  qed
  have lo: "f < length out" "t < length (out ! f)"
    using F(2) N(2) by (simp_all add: out_def)
  have up2: "[0..<2] = [0, 1]" by (simp add: upt_conv_Cons)
  have r0: "map (\<lambda>i. map (map (\<lambda>v. v ! i)) out) [0..<2] ! 0 ! f ! t = out ! f ! t ! 0"
    using lo by (simp add: up2)
  have r1: "map (\<lambda>i. map (map (\<lambda>v. v ! i)) out) [0..<2] ! 1 ! f ! t = out ! f ! t ! 1"
    using lo by (simp add: up2)
  show ?thesis using sh r0 r1 o [of 0] o [of 1] row by simp
qed

lemma sharpened_pair:
  assumes "0 \<le> x" and "0 \<le> y"
  shows "if x = 0 \<and> y = 0
         then np_divide (x ^ 3) (x ^ 3 + y ^ 3) = NaN \<and> np_divide (y ^ 3) (x ^ 3 + y ^ 3) = NaN
         else np_divide (x ^ 3) (x ^ 3 + y ^ 3) = Fin (x ^ 3 / (x ^ 3 + y ^ 3)) \<and>
              np_divide (y ^ 3) (x ^ 3 + y ^ 3) = Fin (y ^ 3 / (x ^ 3 + y ^ 3)) \<and>
              0 \<le> x ^ 3 / (x ^ 3 + y ^ 3) \<and> x ^ 3 / (x ^ 3 + y ^ 3) \<le> 1 \<and>
              0 \<le> y ^ 3 / (x ^ 3 + y ^ 3) \<and> y ^ 3 / (x ^ 3 + y ^ 3) \<le> 1 \<and>
              x ^ 3 / (x ^ 3 + y ^ 3) + y ^ 3 / (x ^ 3 + y ^ 3) = 1"
proof (cases "x = 0 \<and> y = 0")
  case True
  then show ?thesis by (simp add: np_divide_def)
next
  case False
  have x3: "0 \<le> x ^ 3" and y3: "0 \<le> y ^ 3" using assms by simp_all
  have "0 < x ^ 3 \<or> 0 < y ^ 3" using False assms by (auto simp add: less_le)
  then have pos: "0 < x ^ 3 + y ^ 3" using x3 y3 by linarith
  have "x ^ 3 / (x ^ 3 + y ^ 3) + y ^ 3 / (x ^ 3 + y ^ 3) = 1"
    using pos by (simp add: add_divide_distrib [symmetric])
  moreover have "x ^ 3 / (x ^ 3 + y ^ 3) \<le> 1" "y ^ 3 / (x ^ 3 + y ^ 3) \<le> 1"
    using pos x3 y3 by (simp_all add: divide_simps)
  moreover have "0 \<le> x ^ 3 / (x ^ 3 + y ^ 3)" "0 \<le> y ^ 3 / (x ^ 3 + y ^ 3)"
    using pos x3 y3 by simp_all
  ultimately show ?thesis using False pos by (simp add: np_divide_def)
qed

lemma silent_soft_masks:
  "soft_mel_mask (clustered_state SOFT_MASK) 0 (Suc 0) = Inr [[0], [0]]"
  "soft_mel_mask (clustered_state SOFT_MASK) 0 2 = Inr [[0], [0]]"
  by (simp_all add: soft_mel_mask_def soft_distances_def normalized_distances_def
      clip_distances_def clustered_state_def initial_state_def euclidean_def np_min_def
      np_max_def shape_def reshape_def Let_def)

lemma silent_projection: "project_and_normalize [[1]] [[0], [0]] = Inr [[0, 0]]"
  by (simp add: project_and_normalize_def project_def np_dot_def shift_min_def scale_max_def
      dot_def T_def np_min_def np_max_def)

lemma silent_sharpen:
  "sharpen 2 [[[0, 0]], [[0, 0]]] = Inr [[[NaN, NaN]], [[NaN, NaN]]]"
  by (simp add: sharpen_def stack_last_def reshape_pairs_def reshape_def shape_def np_divide_def
      Let_def upt_conv_Cons)

lemma silent_loop:
  "extract_loop (clustered_state SOFT_MASK) 0 [Suc 0, 2] None [] = Inr [[[0, 0]], [[0, 0]]]"
proof -
  have "mask_type (clustered_state SOFT_MASK) = SOFT_MASK"
    and "inverse_mel_filter_bank (clustered_state SOFT_MASK) = [[1]]"
    by (simp_all add: clustered_state_def initial_state_def)
  then show ?thesis by (simp add: silent_soft_masks silent_projection)
qed

lemma silent_extract:
  "extract_masks (clustered_state SOFT_MASK) 0 = Inr [[[NaN, NaN]], [[NaN, NaN]]]"
proof -
  have up: "[Suc 0..<3] = [Suc 0, 2]" by (simp add: upt_conv_Cons)
  have mt: "mask_type (clustered_state SOFT_MASK) = SOFT_MASK"
    and n: "num_sources (clustered_state SOFT_MASK) = 2"
    and sd: "stft_data (audio_signal (clustered_state SOFT_MASK)) = Some [[[0], [0]]]"
    by (simp_all add: clustered_state_def initial_state_def)
  have "extract_masks (clustered_state SOFT_MASK) 0 =
          bindE (extract_loop (clustered_state SOFT_MASK) 0 [Suc 0, 2] None []) (sharpen 2)"
    by (simp add: extract_masks_def mt n up sd del: extract_loop.simps)
  then show ?thesis by (simp only: silent_loop silent_sharpen bindE_simps)
qed

text \<open>
  C5 fails on the code. The renormalisation of line 202 divides by the per-bin sum of
  cubes with no epsilon. On the silent mixture the guarded divisions leave both
  normalised masks zero everywhere, every per-bin sum is zero, and the sharpening
  returns not-a-number at every bin.
\<close>

theorem sharpening_divides_by_zero:
  "extract_loop (clustered_state SOFT_MASK) 0 [1, 2] None [] = Inr [[[0, 0]], [[0, 0]]] \<and>
   sharpen (num_sources (clustered_state SOFT_MASK)) [[[0, 0]], [[0, 0]]] =
     Inr [[[NaN, NaN]], [[NaN, NaN]]] \<and>
   np_divide (0 ^ 3) (sum_list [0 ^ 3, 0 ^ 3]) = NaN"
proof -
  have "num_sources (clustered_state SOFT_MASK) = 2"
    by (simp add: clustered_state_def initial_state_def)
  moreover have "np_divide (0 ^ 3) (sum_list [0 ^ 3, 0 ^ 3]) = NaN"
    by (simp add: np_divide_def)
  ultimately show ?thesis using silent_loop silent_sharpen by simp
qed

text \<open>
  C2 fails on the code, by the same division. The soft masks that \<^verbatim>\<open>run\<close> returns for
  the silent two-source mixture hold not-a-number at every bin: no element lies in
  \<open>[0, 1]\<close> and no per-bin sum is 1.
\<close>

theorem silent_run_not_a_number:
  "run silent_env (initial_state SOFT_MASK) =
     Inr ((clustered_state SOFT_MASK)\<lparr>masks := [SoftMask [[[NaN], [NaN]]], SoftMask [[[NaN], [NaN]]]]\<rparr>,
          [SoftMask [[[NaN], [NaN]]], SoftMask [[[NaN], [NaN]]]])"
proof -
  have nc: "num_channels (audio_signal (clustered_state SOFT_MASK)) = 1"
    and n: "num_sources (clustered_state SOFT_MASK) = 2"
    and mt: "mask_type (clustered_state SOFT_MASK) = SOFT_MASK"
    by (simp_all add: clustered_state_def initial_state_def)
  have col: "collate (clustered_state SOFT_MASK) [[[NaN, NaN]], [[NaN, NaN]]] =
               Inr [[[[NaN], [NaN]]], [[[NaN], [NaN]]]]"
    by (simp add: collate_def nc n stack_last_def upt_conv_Cons)
  show ?thesis
    by (simp add: run_def silent_spectrograms silent_clustering nc silent_extract col
        make_mask_object_def mt)
qed

end
